theory Spec2Isabelle
  imports Complex_Main "HOL-Library.Word"
begin

section \<open>Python values and errors\<close>

text \<open>
  The firmware is MicroPython. Its integers are unbounded (\<open>int\<close>); its floats are
  modelled by \<open>real\<close>, so rounding, infinities and NaN are outside the model. An
  exception is a value of \<open>py_error\<close>, and a function that can raise returns
  \<open>py_error + 'a\<close> with \<open>Inl\<close> for the exception.
\<close>

datatype py_error =
    TypeError
  | ValueError
  | KeyError
  | AttributeError
  | ZeroDivisionError
  | UnicodeError

text \<open>\<open>int(x)\<close> on a float truncates towards zero.\<close>

definition py_trunc :: "real \<Rightarrow> int" where
  "py_trunc x = (if 0 \<le> x then \<lfloor>x\<rfloor> else \<lceil>x\<rceil>)"

section \<open>adc.py: the light sensor\<close>

definition RAW_MIN :: int where
  "RAW_MIN = 600"

definition RAW_MAX :: int where
  "RAW_MAX = 65338"

text \<open>\<open>read_sensor_raw\<close> returns what \<open>adc.read_u16()\<close> delivers, a 16-bit sample.\<close>

definition read_sensor_raw :: "16 word \<Rightarrow> int" where
  "read_sensor_raw sample = uint sample"

text \<open>
  \<open>normalize_raw(raw, min_in, max_in)\<close>: the clamp of lines 22 to 25, then the true
  division of line 26, which raises \<open>ZeroDivisionError\<close> when the two bounds coincide.
\<close>

definition normalize_raw :: "int \<Rightarrow> int \<Rightarrow> int \<Rightarrow> py_error + real" where
  "normalize_raw raw min_in max_in =
     (let raw1 = (if raw < min_in then min_in
                  else if raw > max_in then max_in
                  else raw)
      in if max_in - min_in = 0 then Inl ZeroDivisionError
         else Inr (real_of_int (raw1 - min_in) / real_of_int (max_in - min_in)))"

text \<open>
  The signature is \<open>def normalize_raw(raw: int, min_in: RAW_MIN, max_in: RAW_MAX)\<close>:
  \<open>RAW_MIN\<close> and \<open>RAW_MAX\<close> stand in annotation position, so the function has three
  required positional parameters and no default. A call is modelled on the list of its
  positional arguments; any other number of them raises \<open>TypeError\<close>.
\<close>

fun normalize_raw_call :: "int list \<Rightarrow> py_error + real" where
  "normalize_raw_call [raw, min_in, max_in] = normalize_raw raw min_in max_in"
| "normalize_raw_call _ = Inl TypeError"

definition estimate_lux :: "real \<Rightarrow> real" where
  "estimate_lux nrm = nrm * 1000"

section \<open>buzzer.py: the PWM tone generator\<close>

text \<open>
  The PWM peripheral is the pair of values last written to it: the carrier frequency
  and the argument of the last \<open>duty_u16\<close> call, kept as the integer the code passes.
  The peripheral's calls are taken not to raise. In \<open>start_tone\<close> the product
  \<open>65535 * duty\<close> is the exact one; the code truncates the floating-point product,
  which is the same integer wherever the product is a floating-point number itself, as
  it is for the duties 0.5, 2.0 and -1.0 used below, and can be off by one where the
  rounded product reaches an integer that the exact one does not.
\<close>

record pwm =
  pwm_freq :: int
  pwm_duty :: int

definition stop_tone :: "pwm \<Rightarrow> pwm" where
  "stop_tone hw = hw\<lparr>pwm_duty := 0\<rparr>"

definition start_tone :: "int \<Rightarrow> real \<Rightarrow> pwm \<Rightarrow> pwm" where
  "start_tone freq duty hw =
     (if freq \<le> 0 then stop_tone hw
      else (let hw1 = hw\<lparr>pwm_freq := freq\<rparr>;
                duty_val = py_trunc (65535 * duty)
            in hw1\<lparr>pwm_duty := duty_val\<rparr>))"

section \<open>JSON values\<close>

text \<open>
  What \<open>ujson.loads\<close> delivers: \<open>None\<close>, booleans, integers, floats, strings, lists and
  dictionaries (an association list with distinct keys).
\<close>

datatype json =
    JNull
  | JBool bool
  | JInt int
  | JFloat real
  | JStr string
  | JList "json list"
  | JObj "(string \<times> json) list"

section \<open>playback.py: the single-slot playback scheduler\<close>

subsection \<open>The two coroutines\<close>

text \<open>
  A coroutine is modelled by the point at which it is suspended. \<open>NoteNew\<close> and
  \<open>MelodyNew\<close> are coroutines that were created and have not run yet; \<open>NoteSleep\<close> is
  \<open>_play_note_async\<close> suspended at line 11; \<open>MelodyNoteSleep\<close> and \<open>MelodyGapSleep\<close>
  are \<open>_play_melody_async\<close> suspended at lines 38 and 40, holding the notes still to be
  played; \<open>Finished\<close> carries how the coroutine ended.
\<close>

datatype outcome = Completed | Cancelled | Failed py_error

datatype coro =
    NoteNew int int real
  | NoteSleep
  | MelodyNew "json list" int real
  | MelodyNoteSleep "json list" int real
  | MelodyGapSleep "json list" int real
  | Finished outcome

text \<open>
  The event loop resumes a suspended coroutine either normally or, when its task was
  cancelled, by throwing \<open>CancelledError\<close> at the suspension point.
\<close>

datatype signal = Resume | Throw

text \<open>Line 33 to 36: a list (or tuple) is unpacked into two names, anything else is indexed
  by \<open>"freq"\<close> and \<open>"ms"\<close>.\<close>

fun unpack_note :: "json \<Rightarrow> py_error + (json \<times> json)" where
  "unpack_note (JList [freq, ms]) = Inr (freq, ms)"
| "unpack_note (JList _) = Inl ValueError"
| "unpack_note (JObj kvs) =
     (case map_of kvs ''freq'' of
        None \<Rightarrow> Inl KeyError
      | Some freq \<Rightarrow>
          (case map_of kvs ''ms'' of
             None \<Rightarrow> Inl KeyError
           | Some ms \<Rightarrow> Inr (freq, ms)))"
| "unpack_note _ = Inl TypeError"

text \<open>
  The melody's notes are unvalidated JSON values, so \<open>start_tone\<close> and \<open>sleep_ms\<close> can
  receive a value of any type there. The comparison \<open>freq <= 0\<close> of line 15 raises
  \<open>TypeError\<close> on a value that is no number; the peripheral and \<open>sleep_ms\<close> take
  integers (a boolean counts as one) and raise \<open>TypeError\<close> on anything else.
\<close>

fun start_tone_dyn :: "json \<Rightarrow> real \<Rightarrow> pwm \<Rightarrow> py_error + pwm" where
  "start_tone_dyn (JInt f) duty hw = Inr (start_tone f duty hw)"
| "start_tone_dyn (JBool b) duty hw = Inr (start_tone (if b then 1 else 0) duty hw)"
| "start_tone_dyn (JFloat x) duty hw = (if x \<le> 0 then Inr (stop_tone hw) else Inl TypeError)"
| "start_tone_dyn _ duty hw = Inl TypeError"

fun sleep_arg :: "json \<Rightarrow> py_error + int" where
  "sleep_arg (JInt n) = Inr n"
| "sleep_arg (JBool b) = Inr (if b then 1 else 0)"
| "sleep_arg _ = Inl TypeError"

text \<open>
  \<open>_play_melody_async\<close> from the head of its \<open>for\<close> loop to the next suspension, with
  the \<open>finally\<close> clause of line 41 on every exit.
\<close>

fun melody_loop :: "json list \<Rightarrow> int \<Rightarrow> real \<Rightarrow> pwm \<Rightarrow> coro \<times> pwm" where
  "melody_loop [] gap_ms duty hw = (Finished Completed, stop_tone hw)"
| "melody_loop (note # rest) gap_ms duty hw =
     (case unpack_note note of
        Inl e \<Rightarrow> (Finished (Failed e), stop_tone hw)
      | Inr (freq, ms) \<Rightarrow>
          (case start_tone_dyn freq duty hw of
             Inl e \<Rightarrow> (Finished (Failed e), stop_tone hw)
           | Inr hw1 \<Rightarrow>
               (case sleep_arg ms of
                  Inl e \<Rightarrow> (Finished (Failed e), stop_tone hw1)
                | Inr _ \<Rightarrow> (MelodyNoteSleep rest gap_ms duty, hw1))))"

text \<open>
  One turn of a coroutine in the event loop. \<open>CancelledError\<close> thrown into a coroutine
  that has not started ends it before its \<open>try\<close> is entered; thrown at a suspension
  point inside the \<open>try\<close>, it runs the \<open>finally\<close> clause.
\<close>

fun coro_step :: "signal \<Rightarrow> coro \<Rightarrow> pwm \<Rightarrow> coro \<times> pwm" where
  "coro_step Resume (NoteNew freq ms duty) hw = (NoteSleep, start_tone freq duty hw)"
| "coro_step Resume NoteSleep hw = (Finished Completed, stop_tone hw)"
| "coro_step Resume (MelodyNew notes gap_ms duty) hw = melody_loop notes gap_ms duty hw"
| "coro_step Resume (MelodyNoteSleep rest gap_ms duty) hw =
     (MelodyGapSleep rest gap_ms duty, stop_tone hw)"
| "coro_step Resume (MelodyGapSleep rest gap_ms duty) hw = melody_loop rest gap_ms duty hw"
| "coro_step Throw (NoteNew freq ms duty) hw = (Finished Cancelled, hw)"
| "coro_step Throw NoteSleep hw = (Finished Cancelled, stop_tone hw)"
| "coro_step Throw (MelodyNew notes gap_ms duty) hw = (Finished Cancelled, hw)"
| "coro_step Throw (MelodyNoteSleep rest gap_ms duty) hw = (Finished Cancelled, stop_tone hw)"
| "coro_step Throw (MelodyGapSleep rest gap_ms duty) hw = (Finished Cancelled, stop_tone hw)"
| "coro_step sig (Finished out) hw = (Finished out, hw)"

fun coro_finished :: "coro \<Rightarrow> bool" where
  "coro_finished (Finished out) = True"
| "coro_finished _ = False"

fun coro_started :: "coro \<Rightarrow> bool" where
  "coro_started (NoteNew freq ms duty) = False"
| "coro_started (MelodyNew notes gap_ms duty) = False"
| "coro_started _ = True"

subsection \<open>Tasks and the current-task slot\<close>

text \<open>
  An asyncio task is its coroutine and the flag that \<open>Task.cancel()\<close> sets.
  \<open>Task.done()\<close> is true once the coroutine has finished. The scheduler state is the
  PWM, every task created so far (a task handle is its index) and the module global
  \<open>_current_task\<close>.
\<close>

record task =
  coro :: coro
  cancel_req :: bool

record sched =
  sched_pwm :: pwm
  tasks :: "task list"
  current_task :: "nat option"

definition task_done :: "task \<Rightarrow> bool" where
  "task_done t = coro_finished (coro t)"

definition task_cancel :: "task \<Rightarrow> task" where
  "task_cancel t = (if task_done t then t else t\<lparr>cancel_req := True\<rparr>)"

text \<open>
  The lifecycle of the specification: a task is Running from its creation until it
  finishes or its cancellation is requested. A cancelled task is unwound at its next
  turn in the event loop.
\<close>

definition is_running :: "task \<Rightarrow> bool" where
  "is_running t = (\<not> task_done t \<and> \<not> cancel_req t)"

definition new_task :: "coro \<Rightarrow> task" where
  "new_task c = \<lparr>coro = c, cancel_req = False\<rparr>"

text \<open>The state after the modules are loaded: line 6 of buzzer.py, line 5 of playback.py.\<close>

definition init_sched :: "int \<Rightarrow> sched" where
  "init_sched f0 = \<lparr>sched_pwm = \<lparr>pwm_freq = f0, pwm_duty = 0\<rparr>, tasks = [], current_task = None\<rparr>"

definition cancel_current_playback :: "sched \<Rightarrow> sched" where
  "cancel_current_playback s =
     (let s1 = (case current_task s of
                  None \<Rightarrow> s
                | Some i \<Rightarrow>
                    if i < length (tasks s) \<and> \<not> task_done (tasks s ! i)
                    then s\<lparr>tasks := (tasks s)[i := task_cancel (tasks s ! i)],
                           sched_pwm := stop_tone (sched_pwm s)\<rparr>
                    else s)
      in s1\<lparr>current_task := None\<rparr>)"

text \<open>\<open>asyncio.create_task\<close> followed by the assignment to \<open>_current_task\<close>.\<close>

definition spawn_current :: "coro \<Rightarrow> sched \<Rightarrow> sched" where
  "spawn_current c s =
     s\<lparr>tasks := tasks s @ [new_task c], current_task := Some (length (tasks s))\<rparr>"

text \<open>What a call returns to its caller.\<close>

datatype py_value = PyNone | PyInt int

definition play_tone_for_ms :: "int \<Rightarrow> int \<Rightarrow> real \<Rightarrow> sched \<Rightarrow> sched \<times> py_value" where
  "play_tone_for_ms freq ms duty s =
     (let s1 = cancel_current_playback s
      in (spawn_current (NoteNew freq ms duty) s1, PyNone))"

definition play_melody :: "json list \<Rightarrow> int \<Rightarrow> real \<Rightarrow> sched \<Rightarrow> sched \<times> py_value" where
  "play_melody notes gap_ms duty s =
     (let s1 = cancel_current_playback s
      in (spawn_current (MelodyNew notes gap_ms duty) s1, PyInt (int (length notes))))"

subsection \<open>The event loop\<close>

text \<open>
  One turn of task \<open>i\<close>: a finished task is not scheduled again; a task whose
  cancellation was requested receives \<open>CancelledError\<close>.
\<close>

definition run_task :: "nat \<Rightarrow> sched \<Rightarrow> sched" where
  "run_task i s =
     (if i < length (tasks s) \<and> \<not> task_done (tasks s ! i)
      then (let t = tasks s ! i;
                r = coro_step (if cancel_req t then Throw else Resume) (coro t) (sched_pwm s)
            in s\<lparr>tasks := (tasks s)[i := t\<lparr>coro := fst r\<rparr>], sched_pwm := snd r\<rparr>)
      else s)"

text \<open>
  Everything that can happen to the scheduler: one of its three operations is called,
  or the event loop gives some task a turn. Task turns may come in any order.
\<close>

datatype event =
    PlayTone int int real
  | PlayMelody "json list" int real
  | CancelPlayback
  | RunTask nat

fun step :: "event \<Rightarrow> sched \<Rightarrow> sched" where
  "step (PlayTone freq ms duty) s = fst (play_tone_for_ms freq ms duty s)"
| "step (PlayMelody notes gap_ms duty) s = fst (play_melody notes gap_ms duty s)"
| "step CancelPlayback s = cancel_current_playback s"
| "step (RunTask i) s = run_task i s"

definition run :: "event list \<Rightarrow> sched \<Rightarrow> sched" where
  "run es s = fold step es s"

subsection \<open>The scheduler invariant\<close>

text \<open>
  What every state reached from \<open>init_sched\<close> satisfies: a Running task is the one in the
  slot; the buzzer sounds only while the slot holds a Running task; the slot holds a handle
  of a task that was created and not cancelled.
\<close>

definition sched_inv :: "sched \<Rightarrow> bool" where
  "sched_inv s =
     ((\<forall>i<length (tasks s). is_running (tasks s ! i) \<longrightarrow> current_task s = Some i)
      \<and> (pwm_duty (sched_pwm s) \<noteq> 0 \<longrightarrow>
           (\<exists>i<length (tasks s). current_task s = Some i \<and> is_running (tasks s ! i)))
      \<and> (\<forall>i. current_task s = Some i \<longrightarrow> i < length (tasks s) \<and> \<not> cancel_req (tasks s ! i)))"

definition idle :: "sched \<Rightarrow> bool" where
  "idle s = ((\<forall>t\<in>set (tasks s). \<not> is_running t) \<and> pwm_duty (sched_pwm s) = 0 \<and> current_task s = None)"

section \<open>device_api.py: the response payloads\<close>

text \<open>What the device reports at the moment of a request.\<close>

record device =
  adc_sample :: "16 word"
  uptime_ms :: int
  heap_free :: int

text \<open>Line 7 calls \<open>normalize_raw\<close> with the raw reading as its only argument.\<close>

definition sensor_payload :: "16 word \<Rightarrow> py_error + json" where
  "sensor_payload sample =
     (let raw = read_sensor_raw sample
      in case normalize_raw_call [raw] of
           Inl e \<Rightarrow> Inl e
         | Inr nrm \<Rightarrow>
             (let lux = estimate_lux nrm
              in Inr (JObj [(''raw'', JInt raw), (''norm'', JFloat nrm), (''lux'', JFloat lux)])))"

definition health_payload :: "string \<Rightarrow> device \<Rightarrow> py_error + json" where
  "health_payload device_id dev =
     (case sensor_payload (adc_sample dev) of
        Inl e \<Rightarrow> Inl e
      | Inr sensor \<Rightarrow>
          Inr (JObj [(''device_id'', JStr device_id),
                     (''uptime_ms'', JInt (uptime_ms dev)),
                     (''heap_free'', JInt (heap_free dev)),
                     (''sensor'', sensor)]))"

text \<open>
  Modelled from the spec: \<open>http.py\<close> imports \<open>play_tone_for_ms\<close>, \<open>play_melody\<close> and
  \<open>cancel_playback\<close> from \<open>device_api\<close>, which defines none of them. They are taken to
  be the scheduler operations to which the specification's routing table maps the three
  POST routes: \<open>play_tone_for_ms\<close> and \<open>play_melody\<close> of \<open>playback.py\<close>, and for
  \<open>cancel_playback\<close> its \<open>cancel_current_playback\<close>.
\<close>

definition cancel_playback :: "sched \<Rightarrow> sched" where
  "cancel_playback s = cancel_current_playback s"

section \<open>http.py: the request router\<close>

subsection \<open>What the runtime provides\<close>

text \<open>
  \<open>bytes.decode\<close>, the builtins \<open>int\<close> and \<open>float\<close> on strings, \<open>ujson.loads\<close> and
  \<open>str\<close> on an exception belong to the MicroPython runtime, not to the repository; they
  are parameters of the model. \<open>None\<close> stands for the exception the builtin raises:
  \<open>UnicodeError\<close> for \<open>decode\<close> on bytes that are not UTF-8, \<open>ValueError\<close> for the
  others.
\<close>

record runtime =
  decode_utf8 :: "string \<Rightarrow> string option"
  int_of_str :: "string \<Rightarrow> int option"
  float_of_str :: "string \<Rightarrow> real option"
  json_loads :: "string \<Rightarrow> json option"
  exc_str :: "py_error \<Rightarrow> string"

fun py_int :: "runtime \<Rightarrow> json \<Rightarrow> py_error + int" where
  "py_int rt (JInt n) = Inr n"
| "py_int rt (JBool b) = Inr (if b then 1 else 0)"
| "py_int rt (JFloat x) = Inr (py_trunc x)"
| "py_int rt (JStr s) = (case int_of_str rt s of None \<Rightarrow> Inl ValueError | Some n \<Rightarrow> Inr n)"
| "py_int rt _ = Inl TypeError"

fun py_float :: "runtime \<Rightarrow> json \<Rightarrow> py_error + real" where
  "py_float rt (JInt n) = Inr (real_of_int n)"
| "py_float rt (JBool b) = Inr (if b then 1 else 0)"
| "py_float rt (JFloat x) = Inr x"
| "py_float rt (JStr s) = (case float_of_str rt s of None \<Rightarrow> Inl ValueError | Some x \<Rightarrow> Inr x)"
| "py_float rt _ = Inl TypeError"

text \<open>\<open>body.get(key, default)\<close>: only a dictionary has the method.\<close>

fun dict_get :: "json \<Rightarrow> string \<Rightarrow> json \<Rightarrow> py_error + json" where
  "dict_get (JObj kvs) key dflt = Inr (case map_of kvs key of None \<Rightarrow> dflt | Some v \<Rightarrow> v)"
| "dict_get _ key dflt = Inl AttributeError"

text \<open>
  \<open>await\<close> needs a coroutine, a task or a future; on any other value, \<open>None\<close> and an
  integer among them, it raises \<open>TypeError\<close>.
\<close>

fun await_value :: "py_value \<Rightarrow> py_error + py_value" where
  "await_value PyNone = Inl TypeError"
| "await_value (PyInt n) = Inl TypeError"

subsection \<open>Responses\<close>

record response =
  resp_status :: int
  resp_reason :: string
  resp_body :: json

definition status_text :: "int \<Rightarrow> string" where
  "status_text st =
     (if st = 200 then ''OK''
      else if st = 202 then ''Accepted''
      else if st = 204 then ''No Content''
      else if st = 400 then ''Bad Request''
      else if st = 404 then ''Not Found''
      else if st = 405 then ''Method Not Allowed''
      else if st = 415 then ''Unsupported Media Type''
      else if st = 500 then ''Internal Server Error''
      else ''OK'')"

text \<open>
  \<open>send_json\<close>: every value of type \<open>json\<close> can be serialised, so the fallback of
  line 27 is never taken here. The response is what the handler hands to the writer; the
  connection is taken to deliver what is read and to accept what is written.
\<close>

definition send_json :: "int \<Rightarrow> json \<Rightarrow> response" where
  "send_json st obj = \<lparr>resp_status = st, resp_reason = status_text st, resp_body = obj\<rparr>"

definition error_body :: "string \<Rightarrow> json" where
  "error_body msg = JObj [(''error'', JStr msg)]"

subsection \<open>The handlers\<close>

definition handle_get_sensor :: "device \<Rightarrow> py_error + response" where
  "handle_get_sensor dev =
     (case sensor_payload (adc_sample dev) of
        Inl e \<Rightarrow> Inl e
      | Inr data \<Rightarrow> Inr (send_json 200 data))"

definition handle_get_health :: "device \<Rightarrow> py_error + response" where
  "handle_get_health dev =
     (case health_payload ''pico-w-unknown'' dev of
        Inl e \<Rightarrow> Inl e
      | Inr data \<Rightarrow> Inr (send_json 200 data))"

text \<open>The \<open>try\<close> block of \<open>handle_post_tone\<close>, lines 55 to 57.\<close>

definition tone_params :: "runtime \<Rightarrow> json \<Rightarrow> py_error + (int \<times> int \<times> real)" where
  "tone_params rt body =
     (case dict_get body ''freq'' JNull of Inl e \<Rightarrow> Inl e | Inr v1 \<Rightarrow>
      case py_int rt v1 of Inl e \<Rightarrow> Inl e | Inr freq \<Rightarrow>
      case dict_get body ''ms'' (JInt 250) of Inl e \<Rightarrow> Inl e | Inr v2 \<Rightarrow>
      case py_int rt v2 of Inl e \<Rightarrow> Inl e | Inr ms \<Rightarrow>
      case dict_get body ''duty'' (JFloat (1/2)) of Inl e \<Rightarrow> Inl e | Inr v3 \<Rightarrow>
      case py_float rt v3 of Inl e \<Rightarrow> Inl e | Inr duty \<Rightarrow>
      Inr (freq, ms, duty))"

definition handle_post_tone :: "runtime \<Rightarrow> json \<Rightarrow> sched \<Rightarrow> sched \<times> (py_error + response)" where
  "handle_post_tone rt body s =
     (case tone_params rt body of
        Inl e \<Rightarrow> (s, Inr (send_json 400 (error_body ''Invalid tone parameters'')))
      | Inr (freq, ms, duty) \<Rightarrow>
          (let r = play_tone_for_ms freq ms duty s
           in case await_value (snd r) of
                Inl e \<Rightarrow> (fst r, Inl e)
              | Inr _ \<Rightarrow>
                  (fst r, Inr (send_json 202
                     (JObj [(''status'', JStr ''tone played''), (''freq'', JInt freq),
                            (''ms'', JInt ms), (''duty'', JFloat duty)])))))"

fun valid_note :: "json \<Rightarrow> bool" where
  "valid_note (JList xs) = (length xs = 2)"
| "valid_note _ = False"

text \<open>
  The \<open>try\<close> block of \<open>handle_post_melody\<close>, lines 67 to 73; \<open>Inl\<close> carries the
  \<open>detail\<close> string of the 400 response.
\<close>

definition melody_params :: "runtime \<Rightarrow> json \<Rightarrow> string + (json list \<times> int \<times> real)" where
  "melody_params rt body =
     (case dict_get body ''notes'' (JList []) of Inl e \<Rightarrow> Inl (exc_str rt e) | Inr notes \<Rightarrow>
      case dict_get body ''gap_ms'' (JInt 50) of Inl e \<Rightarrow> Inl (exc_str rt e) | Inr v1 \<Rightarrow>
      case py_int rt v1 of Inl e \<Rightarrow> Inl (exc_str rt e) | Inr gap_ms \<Rightarrow>
      case dict_get body ''duty'' (JFloat (1/2)) of Inl e \<Rightarrow> Inl (exc_str rt e) | Inr v2 \<Rightarrow>
      case py_float rt v2 of Inl e \<Rightarrow> Inl (exc_str rt e) | Inr duty \<Rightarrow>
      (case notes of
         JList ns \<Rightarrow>
           if list_all valid_note ns then Inr (ns, gap_ms, duty)
           else Inl ''notes must be [[freq, ms], ...]''
       | _ \<Rightarrow> Inl ''notes must be [[freq, ms], ...]''))"

definition handle_post_melody :: "runtime \<Rightarrow> json \<Rightarrow> sched \<Rightarrow> sched \<times> (py_error + response)" where
  "handle_post_melody rt body s =
     (case melody_params rt body of
        Inl detail \<Rightarrow>
          (s, Inr (send_json 400
                (JObj [(''error'', JStr ''Invalid melody payload''), (''detail'', JStr detail)])))
      | Inr (ns, gap_ms, duty) \<Rightarrow>
          (let r = play_melody ns gap_ms duty s
           in case await_value (snd r) of
                Inl e \<Rightarrow> (fst r, Inl e)
              | Inr _ \<Rightarrow>
                  (fst r, Inr (send_json 202
                     (JObj [(''status'', JStr ''melody played''),
                            (''length'', JInt (int (length ns))),
                            (''gap_ms'', JInt gap_ms), (''duty'', JFloat duty)])))))"

definition handle_post_cancel :: "sched \<Rightarrow> sched \<times> (py_error + response)" where
  "handle_post_cancel s =
     (cancel_playback s, Inr (send_json 202 (JObj [(''status'', JStr ''canceled'')])))"

subsection \<open>Reading the request\<close>

text \<open>
  A request as the connection delivers it, in bytes: the request line, the lines that
  \<open>readline\<close> returns after it, and the chunks that \<open>read\<close> returns after the header
  loop has ended (no chunk, or an empty one, is the end of the stream). The request line
  and every header line are decoded (lines 99 and 110) before they are taken apart, and
  a line that does not decode raises \<open>UnicodeError\<close>. Decoded text is a \<open>string\<close> too:
  MicroPython keeps a \<open>str\<close> as its UTF-8 bytes, and its \<open>strip\<close>, \<open>split\<close> and
  \<open>lower\<close> look at ASCII characters only.
\<close>

record request =
  req_line :: string
  header_lines :: "string list"
  body_chunks :: "string list"

definition is_space :: "char \<Rightarrow> bool" where
  "is_space c = (c \<in> set [CHR '' '', CHR 0x09, CHR 0x0A, CHR 0x0B, CHR 0x0C, CHR 0x0D])"

definition py_strip :: "string \<Rightarrow> string" where
  "py_strip s = rev (dropWhile is_space (rev (dropWhile is_space s)))"

text \<open>\<open>str.split()\<close>: the maximal runs of characters that are not whitespace.\<close>

fun split_acc :: "string \<Rightarrow> string \<Rightarrow> string list" where
  "split_acc w [] = (if w = [] then [] else [w])"
| "split_acc w (c # cs) =
     (if is_space c then (if w = [] then split_acc [] cs else w # split_acc [] cs)
      else split_acc (w @ [c]) cs)"

definition py_split :: "string \<Rightarrow> string list" where
  "py_split s = split_acc [] s"

definition lower_char :: "char \<Rightarrow> char" where
  "lower_char c =
     (let n = (of_char c :: nat) in if 65 \<le> n \<and> n \<le> 90 then char_of (n + 32) else c)"

definition py_lower :: "string \<Rightarrow> string" where
  "py_lower s = map lower_char s"

text \<open>\<open>line.split(":", 1)\<close>\<close>

definition split_colon :: "string \<Rightarrow> string list" where
  "split_colon line =
     (if CHR '':'' \<in> set line
      then [takeWhile (\<lambda>c. c \<noteq> CHR '':'') line, tl (dropWhile (\<lambda>c. c \<noteq> CHR '':'') line)]
      else [line])"

text \<open>
  The header loop, lines 106 to 112: the test for the end of the headers is on the bytes,
  the split at the colon on the decoded line.
\<close>

fun read_headers ::
  "runtime \<Rightarrow> (string \<rightharpoonup> string) \<Rightarrow> string list \<Rightarrow> py_error + (string \<rightharpoonup> string)" where
  "read_headers rt headers [] = Inr headers"
| "read_headers rt headers (line # rest) =
     (if line = [] \<or> line = [CHR 0x0D, CHR 0x0A] \<or> line = [CHR 0x0A] then Inr headers
      else (case decode_utf8 rt line of
              None \<Rightarrow> Inl UnicodeError
            | Some text \<Rightarrow>
                (case split_colon text of
                   [k, v] \<Rightarrow>
                     read_headers rt (headers(py_lower (py_strip k) \<mapsto> py_strip v)) rest
                 | _ \<Rightarrow> read_headers rt headers rest)))"

text \<open>Line 123: \<open>int(headers.get("content-length", "0") or "0")\<close>\<close>

definition content_length :: "runtime \<Rightarrow> (string \<rightharpoonup> string) \<Rightarrow> py_error + int" where
  "content_length rt headers =
     (let v = (case headers ''content-length'' of
                 None \<Rightarrow> ''0''
               | Some x \<Rightarrow> if x = [] then ''0'' else x)
      in case int_of_str rt v of None \<Rightarrow> Inl ValueError | Some n \<Rightarrow> Inr n)"

text \<open>The body loop, lines 124 to 129.\<close>

fun read_body :: "int \<Rightarrow> string \<Rightarrow> string list \<Rightarrow> string" where
  "read_body clen body_bytes [] = body_bytes"
| "read_body clen body_bytes (c # cs) =
     (if int (length body_bytes) < clen
      then (let chunk = take (nat (clen - int (length body_bytes))) c
            in if chunk = [] then body_bytes else read_body clen (body_bytes @ chunk) cs)
      else body_bytes)"

subsection \<open>Routing\<close>

definition handle_get :: "device \<Rightarrow> string \<Rightarrow> py_error + response" where
  "handle_get dev path =
     (if path = ''/sensor'' then handle_get_sensor dev
      else if path = ''/health'' then handle_get_health dev
      else Inr (send_json 404 (error_body ''Not Found'')))"

definition handle_post ::
  "runtime \<Rightarrow> string \<Rightarrow> (string \<rightharpoonup> string) \<Rightarrow> string list \<Rightarrow> sched
   \<Rightarrow> sched \<times> (py_error + response)" where
  "handle_post rt path headers chunks s =
     (case content_length rt headers of
        Inl e \<Rightarrow> (s, Inl e)
      | Inr clen \<Rightarrow>
          (let body_bytes = read_body clen [] chunks
           in case (if body_bytes = [] then Some (JObj []) else json_loads rt body_bytes) of
                None \<Rightarrow> (s, Inr (send_json 400 (error_body ''Invalid JSON'')))
              | Some body \<Rightarrow>
                  if path = ''/tone'' then handle_post_tone rt body s
                  else if path = ''/melody'' then handle_post_melody rt body s
                  else if path = ''/cancel'' then handle_post_cancel s
                  else (s, Inr (send_json 404 (error_body ''Not Found'')))))"

definition internal_error :: "runtime \<Rightarrow> py_error \<Rightarrow> response" where
  "internal_error rt e =
     send_json 500 (JObj [(''error'', JStr ''internal''), (''detail'', JStr (exc_str rt e))])"

text \<open>
  \<open>handle_client\<close>: the new scheduler state and the response written, if any. An
  exception raised anywhere in the \<open>try\<close> of lines 90 to 147 (decoding the request
  line or a header line, converting the content length, a handler) is answered with 500
  (line 149).
\<close>

definition handle_client ::
  "runtime \<Rightarrow> device \<Rightarrow> request \<Rightarrow> sched \<Rightarrow> sched \<times> response option" where
  "handle_client rt dev rq s =
     (if req_line rq = [] then (s, None)
      else (case decode_utf8 rt (req_line rq) of
              None \<Rightarrow> (s, Some (internal_error rt UnicodeError))
            | Some text \<Rightarrow>
                (case py_split (py_strip text) of
                   method # path # _ \<Rightarrow>
                     (case read_headers rt Map.empty (header_lines rq) of
                        Inl e \<Rightarrow> (s, Some (internal_error rt e))
                      | Inr headers \<Rightarrow>
                          (let r = (if method = ''GET'' then (s, handle_get dev path)
                                    else if method = ''POST''
                                    then handle_post rt path headers (body_chunks rq) s
                                    else (s, Inr (send_json 405
                                            (error_body ''Method Not Allowed''))))
                           in case snd r of
                                Inl e \<Rightarrow> (fst r, Some (internal_error rt e))
                              | Inr resp \<Rightarrow> (fst r, Some resp)))
                 | _ \<Rightarrow> (s, Some (send_json 400 (error_body ''Bad Request''))))))"

section \<open>Concrete inputs\<close>

text \<open>
  For concrete evaluations, a runtime is needed. \<open>ascii_decode\<close> decodes the byte
  strings that are ASCII, which decode to themselves. \<open>decimal_int\<close> reads an optional
  minus sign followed by decimal digits, a syntax that \<open>int\<close> accepts on every Python.
\<close>

definition ascii_decode :: "string \<Rightarrow> string option" where
  "ascii_decode b = (if list_all (\<lambda>c. (of_char c :: nat) < 128) b then Some b else None)"

fun digits_val :: "string \<Rightarrow> nat \<Rightarrow> nat option" where
  "digits_val [] acc = Some acc"
| "digits_val (c # cs) acc =
     (let n = (of_char c :: nat)
      in if 48 \<le> n \<and> n \<le> 57 then digits_val cs (10 * acc + (n - 48)) else None)"

definition decimal_int :: "string \<Rightarrow> int option" where
  "decimal_int s =
     (case s of
        [] \<Rightarrow> None
      | c # cs \<Rightarrow>
          if c = CHR ''-'' then (if cs = [] then None else map_option (\<lambda>n. - int n) (digits_val cs 0))
          else map_option int (digits_val s 0))"

text \<open>The bodies of the two example requests, as bytes and as the decoded values.\<close>

definition tone_bytes :: string where
  \<open>tone_bytes = ''{"freq": 440, "ms": 200, "duty": 0.5}''\<close>

definition tone_body :: json where
  "tone_body = JObj [(''freq'', JInt 440), (''ms'', JInt 200), (''duty'', JFloat (1/2))]"

definition bad_freq_bytes :: string where
  \<open>bad_freq_bytes = ''{"freq":"abc"}''\<close>

definition bad_freq_body :: json where
  "bad_freq_body = JObj [(''freq'', JStr ''abc'')]"

text \<open>
  \<open>test_runtime\<close> decodes ASCII lines, loads the two example bodies and nothing else,
  converts decimal strings, and gives every exception the same text.
\<close>

definition test_runtime :: runtime where
  "test_runtime =
     \<lparr>decode_utf8 = ascii_decode,
      int_of_str = decimal_int,
      float_of_str = (\<lambda>s. map_option real_of_int (decimal_int s)),
      json_loads = (\<lambda>b. if b = tone_bytes then Some tone_body
                         else if b = bad_freq_bytes then Some bad_freq_body
                         else None),
      exc_str = (\<lambda>e. ''error'')\<rparr>"

definition test_device :: device where
  "test_device = \<lparr>adc_sample = 1000, uptime_ms = 5000, heap_free = 100000\<rparr>"

text \<open>The example requests.\<close>

definition sensor_request :: request where
  "sensor_request =
     \<lparr>req_line = ''GET /sensor HTTP/1.1'' @ [CHR 0x0D, CHR 0x0A],
      header_lines = [''Host: pico'' @ [CHR 0x0D, CHR 0x0A], [CHR 0x0D, CHR 0x0A]],
      body_chunks = []\<rparr>"

definition tone_request :: request where
  "tone_request =
     \<lparr>req_line = ''POST /tone HTTP/1.1'' @ [CHR 0x0D, CHR 0x0A],
      header_lines = [''Content-Length: 37'' @ [CHR 0x0D, CHR 0x0A], [CHR 0x0D, CHR 0x0A]],
      body_chunks = [tone_bytes]\<rparr>"

definition cancel_request :: request where
  "cancel_request =
     \<lparr>req_line = ''POST /cancel HTTP/1.1'' @ [CHR 0x0D, CHR 0x0A],
      header_lines = [[CHR 0x0D, CHR 0x0A]],
      body_chunks = []\<rparr>"

definition empty_tone_request :: request where
  "empty_tone_request =
     \<lparr>req_line = ''POST /tone HTTP/1.1'' @ [CHR 0x0D, CHR 0x0A],
      header_lines = [''Content-Length: 5'' @ [CHR 0x0D, CHR 0x0A], [CHR 0x0D, CHR 0x0A]],
      body_chunks = []\<rparr>"

definition bad_freq_request :: request where
  "bad_freq_request =
     \<lparr>req_line = ''POST /tone HTTP/1.1'' @ [CHR 0x0D, CHR 0x0A],
      header_lines = [''Content-Length: 14'' @ [CHR 0x0D, CHR 0x0A], [CHR 0x0D, CHR 0x0A]],
      body_chunks = [bad_freq_bytes]\<rparr>"

section \<open>Properties of the sensor and of the tone generator\<close>

lemma normalize_raw_calibrated:
  "normalize_raw r RAW_MIN RAW_MAX =
     Inr (real_of_int ((if r < RAW_MIN then RAW_MIN else if r > RAW_MAX then RAW_MAX else r) - RAW_MIN)
          / 64738)"
  by (simp add: normalize_raw_def RAW_MIN_def RAW_MAX_def)

text \<open>
  Claim C5. With the calibration constants \<open>RAW_MIN\<close> and \<open>RAW_MAX\<close>,
  \<open>normalize_raw\<close> returns (never raises) a value in [0, 1] for every integer
  reading; it returns exactly 0 at \<open>RAW_MIN\<close> and exactly 1 at \<open>RAW_MAX\<close>; a reading
  below \<open>RAW_MIN\<close> gives 0 and a reading above \<open>RAW_MAX\<close> gives 1.
\<close>

theorem normalize_raw_range:
  "(\<exists>v. normalize_raw r RAW_MIN RAW_MAX = Inr v \<and> 0 \<le> v \<and> v \<le> 1)
   \<and> normalize_raw RAW_MIN RAW_MIN RAW_MAX = Inr 0
   \<and> normalize_raw RAW_MAX RAW_MIN RAW_MAX = Inr 1
   \<and> (r < RAW_MIN \<longrightarrow> normalize_raw r RAW_MIN RAW_MAX = Inr 0)
   \<and> (r > RAW_MAX \<longrightarrow> normalize_raw r RAW_MIN RAW_MAX = Inr 1)"
proof -
  define c where "c = (if r < RAW_MIN then RAW_MIN else if r > RAW_MAX then RAW_MAX else r)"
  have eq: "normalize_raw r RAW_MIN RAW_MAX = Inr (real_of_int (c - RAW_MIN) / 64738)"
    unfolding c_def by (rule normalize_raw_calibrated)
  have lo: "0 \<le> c - RAW_MIN" and hi: "c - RAW_MIN \<le> 64738"
    by (simp_all add: c_def RAW_MIN_def RAW_MAX_def)
  have "0 \<le> real_of_int (c - RAW_MIN) / 64738"
    using lo by simp
  moreover have "real_of_int (c - RAW_MIN) / 64738 \<le> 1"
    using hi by simp
  ultimately have range: "\<exists>v. normalize_raw r RAW_MIN RAW_MAX = Inr v \<and> 0 \<le> v \<and> v \<le> 1"
    using eq by blast
  have ends: "normalize_raw RAW_MIN RAW_MIN RAW_MAX = Inr 0"
    "normalize_raw RAW_MAX RAW_MIN RAW_MAX = Inr 1"
    by (simp_all add: normalize_raw_def RAW_MIN_def RAW_MAX_def)
  have clamp: "r < RAW_MIN \<longrightarrow> normalize_raw r RAW_MIN RAW_MAX = Inr 0"
    "r > RAW_MAX \<longrightarrow> normalize_raw r RAW_MIN RAW_MAX = Inr 1"
    by (simp_all add: normalize_raw_def RAW_MIN_def RAW_MAX_def)
  show ?thesis
    using range ends clamp by blast
qed

theorem normalize_raw_range_witness:
  "(\<exists>v. normalize_raw 70000 RAW_MIN RAW_MAX = Inr v \<and> 0 \<le> v \<and> v \<le> 1)
   \<and> normalize_raw RAW_MIN RAW_MIN RAW_MAX = Inr 0
   \<and> normalize_raw RAW_MAX RAW_MIN RAW_MAX = Inr 1
   \<and> (70000::int) > RAW_MAX
   \<and> normalize_raw 70000 RAW_MIN RAW_MAX = Inr 1
   \<and> (12::int) < RAW_MIN
   \<and> normalize_raw 12 RAW_MIN RAW_MAX = Inr 0"
  using normalize_raw_range [of 70000] normalize_raw_range [of 12]
  by (simp add: RAW_MIN_def RAW_MAX_def)

text \<open>
  Claim C8. For every duty and every frequency \<open>freq \<le> 0\<close>, \<open>start_tone\<close> leaves the
  PWM exactly as \<open>stop_tone\<close> does: duty zero, frequency untouched. \<open>stop_tone\<close> is
  idempotent, and on a silent PWM it changes nothing.
\<close>

theorem start_tone_nonpositive_is_stop:
  "(freq \<le> 0 \<longrightarrow> start_tone freq duty hw = stop_tone hw)
   \<and> pwm_duty (stop_tone hw) = 0
   \<and> pwm_freq (stop_tone hw) = pwm_freq hw
   \<and> stop_tone (stop_tone hw) = stop_tone hw
   \<and> (pwm_duty hw = 0 \<longrightarrow> stop_tone hw = hw)"
  by (simp add: start_tone_def stop_tone_def)

theorem start_tone_nonpositive_is_stop_witness:
  "(-5::int) \<le> 0
   \<and> start_tone (-5) 0.5 \<lparr>pwm_freq = 440, pwm_duty = 32767\<rparr> = \<lparr>pwm_freq = 440, pwm_duty = 0\<rparr>
   \<and> stop_tone \<lparr>pwm_freq = 440, pwm_duty = 32767\<rparr> = \<lparr>pwm_freq = 440, pwm_duty = 0\<rparr>
   \<and> pwm_duty \<lparr>pwm_freq = 440, pwm_duty = 0\<rparr> = 0
   \<and> stop_tone \<lparr>pwm_freq = 440, pwm_duty = 0\<rparr> = \<lparr>pwm_freq = 440, pwm_duty = 0\<rparr>"
  using start_tone_nonpositive_is_stop [of "-5" "0.5" "\<lparr>pwm_freq = 440, pwm_duty = 32767\<rparr>"]
        start_tone_nonpositive_is_stop [of 0 0 "\<lparr>pwm_freq = 440, pwm_duty = 0\<rparr>"]
  by (simp add: stop_tone_def)

section \<open>Properties of the playback scheduler\<close>

lemma sched_invI:
  assumes "\<And>i. i < length (tasks s) \<Longrightarrow> is_running (tasks s ! i) \<Longrightarrow> current_task s = Some i"
    and "pwm_duty (sched_pwm s) \<noteq> 0 \<Longrightarrow>
           \<exists>i<length (tasks s). current_task s = Some i \<and> is_running (tasks s ! i)"
    and "\<And>i. current_task s = Some i \<Longrightarrow> i < length (tasks s) \<and> \<not> cancel_req (tasks s ! i)"
  shows "sched_inv s"
  unfolding sched_inv_def using assms by blast

lemma inv_slot:
  "sched_inv s \<Longrightarrow> k < length (tasks s) \<Longrightarrow> is_running (tasks s ! k) \<Longrightarrow> current_task s = Some k"
  unfolding sched_inv_def by blast

lemma inv_sound:
  "sched_inv s \<Longrightarrow> pwm_duty (sched_pwm s) \<noteq> 0 \<Longrightarrow>
   \<exists>i<length (tasks s). current_task s = Some i \<and> is_running (tasks s ! i)"
  unfolding sched_inv_def by blast

lemma inv_handle:
  "sched_inv s \<Longrightarrow> current_task s = Some i \<Longrightarrow> i < length (tasks s) \<and> \<not> cancel_req (tasks s ! i)"
  unfolding sched_inv_def by blast

lemma idleI:
  "(\<And>i. i < length (tasks s) \<Longrightarrow> \<not> is_running (tasks s ! i)) \<Longrightarrow> pwm_duty (sched_pwm s) = 0
   \<Longrightarrow> current_task s = None \<Longrightarrow> idle s"
  unfolding idle_def by (metis in_set_conv_nth)

lemma idle_task: "idle s \<Longrightarrow> i < length (tasks s) \<Longrightarrow> \<not> is_running (tasks s ! i)"
  unfolding idle_def by simp

lemma idle_silent: "idle s \<Longrightarrow> pwm_duty (sched_pwm s) = 0"
  unfolding idle_def by simp

lemma idle_slot: "idle s \<Longrightarrow> current_task s = None"
  unfolding idle_def by simp

lemma melody_loop_finish:
  "coro_finished (fst (melody_loop ns g d h)) \<Longrightarrow> pwm_duty (snd (melody_loop ns g d h)) = 0"
  by (cases ns) (auto simp: stop_tone_def split: sum.splits prod.splits)

lemma coro_step_resume_finish:
  "\<not> coro_finished c \<Longrightarrow> coro_finished (fst (coro_step Resume c h))
   \<Longrightarrow> pwm_duty (snd (coro_step Resume c h)) = 0"
  by (cases c) (auto simp: stop_tone_def melody_loop_finish)

lemma coro_step_throw_pwm:
  "snd (coro_step Throw c h) = (if coro_started c \<and> \<not> coro_finished c then stop_tone h else h)"
  by (cases c) auto

lemma sched_inv_init: "sched_inv (init_sched f0)"
  by (rule sched_invI) (simp_all add: init_sched_def)

lemma cancel_no_slot:
  "current_task s = None \<Longrightarrow> cancel_current_playback s = s"
  by (simp add: cancel_current_playback_def)

lemma cancel_live_slot:
  "current_task s = Some i \<Longrightarrow> i < length (tasks s) \<Longrightarrow> \<not> task_done (tasks s ! i)
   \<Longrightarrow> cancel_current_playback s =
       s\<lparr>tasks := (tasks s)[i := task_cancel (tasks s ! i)],
         sched_pwm := stop_tone (sched_pwm s), current_task := None\<rparr>"
  by (simp add: cancel_current_playback_def)

lemma cancel_dead_slot:
  "current_task s = Some i \<Longrightarrow> \<not> (i < length (tasks s) \<and> \<not> task_done (tasks s ! i))
   \<Longrightarrow> cancel_current_playback s = s\<lparr>current_task := None\<rparr>"
  by (cases "i < length (tasks s)") (simp_all add: cancel_current_playback_def)

lemma task_cancel_not_running: "\<not> is_running (task_cancel t)"
  by (simp add: is_running_def task_cancel_def task_done_def)

lemma cancel_idle:
  assumes inv: "sched_inv s"
  shows "idle (cancel_current_playback s)"
proof (cases "current_task s")
  case None
  have "\<not> is_running (tasks s ! i)" if "i < length (tasks s)" for i
    using inv_slot [OF inv that] None by auto
  moreover have "pwm_duty (sched_pwm s) = 0"
    using inv_sound [OF inv] None by auto
  ultimately have "idle s"
    using None by (simp add: idleI)
  then show ?thesis
    using None by (simp add: cancel_no_slot)
next
  case (Some i)
  have only: "j = i" if "j < length (tasks s)" "is_running (tasks s ! j)" for j
    using inv_slot [OF inv that] Some by simp
  show ?thesis
  proof (cases "i < length (tasks s) \<and> \<not> task_done (tasks s ! i)")
    case True
    have eq: "cancel_current_playback s =
       s\<lparr>tasks := (tasks s)[i := task_cancel (tasks s ! i)],
         sched_pwm := stop_tone (sched_pwm s), current_task := None\<rparr>"
      using Some True by (simp add: cancel_live_slot)
    have "\<not> is_running ((tasks s)[i := task_cancel (tasks s ! i)] ! j)"
      if j: "j < length (tasks s)" for j
    proof (cases "j = i")
      case True
      with j show ?thesis by (simp add: task_cancel_not_running)
    next
      case False
      with j only [of j] show ?thesis by auto
    qed
    then show ?thesis
      unfolding eq by (intro idleI) (simp_all add: stop_tone_def)
  next
    case False
    have eq: "cancel_current_playback s = s\<lparr>current_task := None\<rparr>"
      using Some False by (rule cancel_dead_slot)
    have none: "\<not> is_running (tasks s ! j)" if "j < length (tasks s)" for j
    proof
      assume r: "is_running (tasks s ! j)"
      with that have "j = i" by (rule only)
      with r that False show False by (simp add: is_running_def)
    qed
    have "pwm_duty (sched_pwm s) = 0"
      using inv_sound [OF inv] none by blast
    then show ?thesis
      unfolding eq using none by (intro idleI) simp_all
  qed
qed

lemma new_task_running: "\<not> coro_finished c \<Longrightarrow> is_running (new_task c)"
  by (simp add: is_running_def new_task_def task_done_def)

lemma spawn_inv:
  assumes idle: "idle s" and c: "\<not> coro_finished c"
  shows "sched_inv (spawn_current c s)"
proof (rule sched_invI)
  fix i
  assume i: "i < length (tasks (spawn_current c s))"
    and r: "is_running (tasks (spawn_current c s) ! i)"
  have "i = length (tasks s)"
  proof (rule ccontr)
    assume "i \<noteq> length (tasks s)"
    with i have lt: "i < length (tasks s)" by (simp add: spawn_current_def)
    then have "tasks (spawn_current c s) ! i = tasks s ! i"
      by (simp add: spawn_current_def nth_append)
    with r idle_task [OF idle lt] show False by simp
  qed
  then show "current_task (spawn_current c s) = Some i"
    by (simp add: spawn_current_def)
next
  show "\<exists>i<length (tasks (spawn_current c s)).
          current_task (spawn_current c s) = Some i \<and> is_running (tasks (spawn_current c s) ! i)"
    using new_task_running [OF c] by (simp add: spawn_current_def)
next
  fix i
  assume "current_task (spawn_current c s) = Some i"
  then show "i < length (tasks (spawn_current c s)) \<and> \<not> cancel_req (tasks (spawn_current c s) ! i)"
    by (auto simp: spawn_current_def new_task_def)
qed

lemma run_task_skip:
  "\<not> (i < length (tasks s) \<and> \<not> task_done (tasks s ! i)) \<Longrightarrow> run_task i s = s"
  by (cases "i < length (tasks s)") (simp_all add: run_task_def)

lemma run_task_turn:
  "i < length (tasks s) \<Longrightarrow> \<not> task_done (tasks s ! i) \<Longrightarrow>
   run_task i s =
     s\<lparr>tasks := (tasks s)[i := (tasks s ! i)\<lparr>coro :=
            fst (coro_step (if cancel_req (tasks s ! i) then Throw else Resume)
                   (coro (tasks s ! i)) (sched_pwm s))\<rparr>],
       sched_pwm := snd (coro_step (if cancel_req (tasks s ! i) then Throw else Resume)
                   (coro (tasks s ! i)) (sched_pwm s))\<rparr>"
  by (simp add: run_task_def Let_def)

lemma run_task_inv:
  assumes inv: "sched_inv s"
  shows "sched_inv (run_task i s)"
proof (cases "i < length (tasks s) \<and> \<not> task_done (tasks s ! i)")
  case False
  then show ?thesis using inv by (simp add: run_task_skip)
next
  case True
  define t where "t = tasks s ! i"
  define sg where "sg = (if cancel_req t then Throw else Resume)"
  define c' where "c' = fst (coro_step sg (coro t) (sched_pwm s))"
  define h' where "h' = snd (coro_step sg (coro t) (sched_pwm s))"
  define t' where "t' = t\<lparr>coro := c'\<rparr>"
  have eq: "run_task i s = s\<lparr>tasks := (tasks s)[i := t'], sched_pwm := h'\<rparr>"
    using True by (simp add: run_task_turn t_def sg_def c'_def h'_def t'_def)
  have i: "i < length (tasks s)" using True by simp
  have notfin: "\<not> coro_finished (coro t)"
    using True by (simp add: t_def task_done_def)
  have run': "is_running t' \<Longrightarrow> is_running t"
    using notfin by (simp add: is_running_def t'_def task_done_def)
  have a': "current_task s = Some j"
    if j: "j < length (tasks s)" and r: "is_running (((tasks s)[i := t']) ! j)" for j
  proof (cases "j = i")
    case True
    with j r run' have "is_running (tasks s ! j)" by (simp add: t_def)
    then show ?thesis using inv j by (simp add: inv_slot)
  next
    case False
    with r have "is_running (tasks s ! j)" by simp
    then show ?thesis using inv j by (simp add: inv_slot)
  qed
  have b': "\<exists>j<length (tasks s). current_task s = Some j \<and> is_running (((tasks s)[i := t']) ! j)"
    if nz: "pwm_duty h' \<noteq> 0"
  proof (cases "cancel_req t")
    case True
    then have "sg = Throw" by (simp add: sg_def)
    then have "h' = sched_pwm s \<or> h' = stop_tone (sched_pwm s)"
      by (simp add: h'_def coro_step_throw_pwm)
    with nz have "pwm_duty (sched_pwm s) \<noteq> 0" by (auto simp: stop_tone_def)
    with inv_sound [OF inv] obtain j where j: "j < length (tasks s)" "current_task s = Some j"
      "is_running (tasks s ! j)" by blast
    from True have "\<not> is_running (tasks s ! i)" by (simp add: is_running_def t_def)
    with j have "j \<noteq> i" by auto
    with j have "is_running (((tasks s)[i := t']) ! j)" by simp
    with j show ?thesis by blast
  next
    case False
    then have sg: "sg = Resume" by (simp add: sg_def)
    from False notfin have "is_running (tasks s ! i)"
      by (simp add: is_running_def t_def task_done_def)
    then have slot: "current_task s = Some i"
      using inv i by (simp add: inv_slot)
    have "\<not> coro_finished c'"
    proof
      assume "coro_finished c'"
      then have "pwm_duty h' = 0"
        using coro_step_resume_finish [OF notfin, of "sched_pwm s"]
        by (simp add: c'_def h'_def sg)
      with nz show False by simp
    qed
    with False have "is_running t'"
      by (simp add: is_running_def t'_def task_done_def)
    with i have "is_running (((tasks s)[i := t']) ! i)" by simp
    with slot i show ?thesis by blast
  qed
  have c': "j < length (tasks s) \<and> \<not> cancel_req (((tasks s)[i := t']) ! j)"
    if slot: "current_task s = Some j" for j
  proof -
    have h: "j < length (tasks s)" "\<not> cancel_req (tasks s ! j)"
      using inv_handle [OF inv slot] by simp_all
    show ?thesis
    proof (cases "j = i")
      case True
      with h show ?thesis by (simp add: t'_def t_def)
    next
      case False
      with h show ?thesis by simp
    qed
  qed
  show ?thesis
    unfolding eq
  proof (rule sched_invI)
    fix j
    assume "j < length (tasks (s\<lparr>tasks := (tasks s)[i := t'], sched_pwm := h'\<rparr>))"
      "is_running (tasks (s\<lparr>tasks := (tasks s)[i := t'], sched_pwm := h'\<rparr>) ! j)"
    then show "current_task (s\<lparr>tasks := (tasks s)[i := t'], sched_pwm := h'\<rparr>) = Some j"
      using a' [of j] by simp
  next
    assume "pwm_duty (sched_pwm (s\<lparr>tasks := (tasks s)[i := t'], sched_pwm := h'\<rparr>)) \<noteq> 0"
    then show "\<exists>j<length (tasks (s\<lparr>tasks := (tasks s)[i := t'], sched_pwm := h'\<rparr>)).
        current_task (s\<lparr>tasks := (tasks s)[i := t'], sched_pwm := h'\<rparr>) = Some j
        \<and> is_running (tasks (s\<lparr>tasks := (tasks s)[i := t'], sched_pwm := h'\<rparr>) ! j)"
      using b' by simp
  next
    fix j
    assume "current_task (s\<lparr>tasks := (tasks s)[i := t'], sched_pwm := h'\<rparr>) = Some j"
    then show "j < length (tasks (s\<lparr>tasks := (tasks s)[i := t'], sched_pwm := h'\<rparr>))
        \<and> \<not> cancel_req (tasks (s\<lparr>tasks := (tasks s)[i := t'], sched_pwm := h'\<rparr>) ! j)"
      using c' [of j] by simp
  qed
qed

lemma idle_inv: "idle s \<Longrightarrow> sched_inv s"
  by (rule sched_invI) (simp_all add: idle_task idle_silent idle_slot)

lemma play_tone_inv: "sched_inv s \<Longrightarrow> sched_inv (fst (play_tone_for_ms freq ms duty s))"
  by (simp add: play_tone_for_ms_def cancel_idle spawn_inv)

lemma play_melody_inv: "sched_inv s \<Longrightarrow> sched_inv (fst (play_melody ns gap_ms duty s))"
  by (simp add: play_melody_def cancel_idle spawn_inv)

lemma step_inv: "sched_inv s \<Longrightarrow> sched_inv (step e s)"
  by (cases e) (simp_all add: play_tone_inv play_melody_inv run_task_inv cancel_idle idle_inv)

lemma fold_step_inv: "sched_inv s \<Longrightarrow> sched_inv (fold step es s)"
  by (induction es arbitrary: s) (simp_all add: step_inv)

lemma run_inv: "sched_inv (run es (init_sched f0))"
  by (simp add: run_def fold_step_inv sched_inv_init)

lemma filter_at_most_one:
  "(\<And>i j. i < length xs \<Longrightarrow> j < length xs \<Longrightarrow> P (xs ! i) \<Longrightarrow> P (xs ! j) \<Longrightarrow> i = j)
   \<Longrightarrow> length (filter P xs) \<le> 1"
proof (induction xs)
  case Nil
  then show ?case by simp
next
  case (Cons x xs)
  have tl: "length (filter P xs) \<le> 1"
  proof (rule Cons.IH)
    fix i j
    assume "i < length xs" "j < length xs" "P (xs ! i)" "P (xs ! j)"
    then have "Suc i = Suc j"
      using Cons.prems [of "Suc i" "Suc j"] by simp
    then show "i = j" by simp
  qed
  show ?case
  proof (cases "P x")
    case False
    with tl show ?thesis by simp
  next
    case True
    have "\<not> P y" if "y \<in> set xs" for y
    proof
      assume py: "P y"
      from that obtain k where "k < length xs" "xs ! k = y"
        by (auto simp: in_set_conv_nth)
      with py True Cons.prems [of 0 "Suc k"] show False by simp
    qed
    then have "filter P xs = []" by (simp add: filter_empty_conv)
    with True show ?thesis by simp
  qed
qed

lemma inv_single:
  assumes "sched_inv s"
  shows "length (filter is_running (tasks s)) \<le> 1"
proof (rule filter_at_most_one)
  fix i j
  assume "i < length (tasks s)" "j < length (tasks s)"
    "is_running (tasks s ! i)" "is_running (tasks s ! j)"
  then have "current_task s = Some i" "current_task s = Some j"
    using assms by (blast intro: inv_slot)+
  then show "i = j" by simp
qed

lemma idle_spawn_running:
  "idle s \<Longrightarrow> \<not> coro_finished c \<Longrightarrow>
   filter is_running (tasks (spawn_current c s)) = [new_task c]"
  by (simp add: idle_def spawn_current_def filter_empty_conv is_running_def new_task_def
      task_done_def)

lemma cancel_length: "length (tasks (cancel_current_playback s)) = length (tasks s)"
  by (cases "current_task s") (simp_all add: cancel_current_playback_def)

lemma cancel_idem: "cancel_current_playback (cancel_current_playback s) = cancel_current_playback s"
proof -
  have "current_task (cancel_current_playback s) = None"
    by (simp add: cancel_current_playback_def Let_def)
  then show ?thesis by (rule cancel_no_slot)
qed

text \<open>
  Claim C1. Single flight: in every state reached from the initial one by any sequence of
  scheduler calls and task turns, at most one task is Running. Every call of
  \<open>play_tone_for_ms\<close> or \<open>play_melody\<close> first runs \<open>cancel_current_playback\<close>, after
  which no task is Running and the duty is zero, and then creates the new task in that
  state and puts it into the slot: the new task is then the only Running one.
\<close>

theorem single_flight:
  "length (filter is_running (tasks (run es (init_sched f0)))) \<le> 1
   \<and> (let s = run es (init_sched f0);
           s1 = cancel_current_playback s;
           s2 = fst (play_tone_for_ms freq ms duty s);
           s3 = fst (play_melody notes gap_ms duty s)
       in filter is_running (tasks s1) = [] \<and> pwm_duty (sched_pwm s1) = 0
          \<and> s2 = spawn_current (NoteNew freq ms duty) s1
          \<and> current_task s2 = Some (length (tasks s))
          \<and> filter is_running (tasks s2) = [new_task (NoteNew freq ms duty)]
          \<and> pwm_duty (sched_pwm s2) = 0
          \<and> s3 = spawn_current (MelodyNew notes gap_ms duty) s1
          \<and> current_task s3 = Some (length (tasks s))
          \<and> filter is_running (tasks s3) = [new_task (MelodyNew notes gap_ms duty)]
          \<and> pwm_duty (sched_pwm s3) = 0)"
proof -
  define s where "s = run es (init_sched f0)"
  define s1 where "s1 = cancel_current_playback s"
  have inv: "sched_inv s" by (simp add: s_def run_inv)
  then have idle: "idle s1" by (simp add: s1_def cancel_idle)
  have one: "length (filter is_running (tasks s)) \<le> 1"
    using inv by (rule inv_single)
  have none: "filter is_running (tasks s1) = []" and silent: "pwm_duty (sched_pwm s1) = 0"
    using idle by (simp_all add: idle_def filter_empty_conv)
  have len: "length (tasks s1) = length (tasks s)"
    by (simp add: s1_def cancel_length)
  have sp: "current_task (spawn_current c s1) = Some (length (tasks s))"
    "pwm_duty (sched_pwm (spawn_current c s1)) = 0" for c
    using len silent by (simp_all add: spawn_current_def)
  have tone: "filter is_running (tasks (spawn_current (NoteNew freq ms duty) s1))
               = [new_task (NoteNew freq ms duty)]"
    using idle by (simp add: idle_spawn_running)
  have mel: "filter is_running (tasks (spawn_current (MelodyNew notes gap_ms duty) s1))
               = [new_task (MelodyNew notes gap_ms duty)]"
    using idle by (simp add: idle_spawn_running)
  show ?thesis
    using one none silent sp tone mel
    by (simp add: Let_def play_tone_for_ms_def play_melody_def s_def [symmetric]
        s1_def [symmetric])
qed

lemma inv_quiet_slot:
  assumes inv: "sched_inv s" and quiet: "filter is_running (tasks s) = []"
  shows "cancel_current_playback s = s\<lparr>current_task := None\<rparr>"
proof (cases "current_task s")
  case None
  then show ?thesis by (simp add: cancel_no_slot)
next
  case (Some i)
  have i: "i < length (tasks s)" "\<not> cancel_req (tasks s ! i)"
    using inv_handle [OF inv Some] by simp_all
  from quiet i(1) have "\<not> is_running (tasks s ! i)"
    by (simp add: filter_empty_conv)
  with i(2) have "task_done (tasks s ! i)"
    by (simp add: is_running_def)
  with Some show ?thesis by (simp add: cancel_dead_slot)
qed

text \<open>
  Claim C4. In every reachable state the buzzer is silent after
  \<open>cancel_current_playback\<close>; when no task is Running the call changes neither the
  tasks nor the PWM (it only clears the slot, and is the identity on an empty slot); and
  calling it twice is the same as calling it once.
\<close>

theorem cancel_silences:
  "(let s = run es (init_sched f0)
    in pwm_duty (sched_pwm (cancel_current_playback s)) = 0
       \<and> (filter is_running (tasks s) = [] \<longrightarrow>
            cancel_current_playback s = s\<lparr>current_task := None\<rparr>))
   \<and> (current_task s0 = None \<longrightarrow> cancel_current_playback s0 = s0)
   \<and> cancel_current_playback (cancel_current_playback s0) = cancel_current_playback s0"
proof -
  have inv: "sched_inv (run es (init_sched f0))" by (rule run_inv)
  then have "idle (cancel_current_playback (run es (init_sched f0)))" by (rule cancel_idle)
  then have "pwm_duty (sched_pwm (cancel_current_playback (run es (init_sched f0)))) = 0"
    by (rule idle_silent)
  moreover have "filter is_running (tasks (run es (init_sched f0))) = [] \<longrightarrow>
      cancel_current_playback (run es (init_sched f0))
      = (run es (init_sched f0))\<lparr>current_task := None\<rparr>"
    using inv by (blast intro: inv_quiet_slot)
  moreover have "current_task s0 = None \<longrightarrow> cancel_current_playback s0 = s0"
    by (blast intro: cancel_no_slot)
  ultimately show ?thesis
    unfolding Let_def using cancel_idem [of s0] by blast
qed

lemma cancel_other_task:
  assumes "i < length (tasks s)" "current_task s \<noteq> Some i"
  shows "tasks (cancel_current_playback s) ! i = tasks s ! i"
proof (cases "current_task s")
  case None
  then show ?thesis by (simp add: cancel_no_slot)
next
  case (Some j)
  with assms have "j \<noteq> i" by simp
  then show ?thesis
    using Some by (cases "j < length (tasks s) \<and> \<not> task_done (tasks s ! j)")
      (simp_all add: cancel_live_slot cancel_dead_slot del: de_Morgan_conj)
qed

lemma cancel_leaves_running:
  assumes i: "i < length (tasks s)" and run: "is_running (tasks s ! i)"
    and gone: "\<not> is_running (tasks (cancel_current_playback s) ! i)"
  shows "pwm_duty (sched_pwm (cancel_current_playback s)) = 0"
proof -
  have slot: "current_task s = Some i"
  proof (rule ccontr)
    assume "current_task s \<noteq> Some i"
    then have "tasks (cancel_current_playback s) ! i = tasks s ! i"
      by (rule cancel_other_task [OF i])
    with run gone show False by simp
  qed
  from run have "\<not> task_done (tasks s ! i)" by (simp add: is_running_def)
  with slot i show ?thesis
    by (simp add: cancel_live_slot stop_tone_def)
qed

lemma spawn_old_task:
  "i < length (tasks s) \<Longrightarrow> tasks (spawn_current c s) ! i = tasks s ! i"
  by (simp add: spawn_current_def nth_append)

lemma spawn_after_cancel_leaves_running:
  assumes i: "i < length (tasks s)" and run: "is_running (tasks s ! i)"
    and gone: "\<not> is_running (tasks (spawn_current c (cancel_current_playback s)) ! i)"
  shows "pwm_duty (sched_pwm (spawn_current c (cancel_current_playback s))) = 0"
proof -
  have "i < length (tasks (cancel_current_playback s))"
    using i by (simp add: cancel_length)
  then have "tasks (spawn_current c (cancel_current_playback s)) ! i
             = tasks (cancel_current_playback s) ! i"
    by (rule spawn_old_task)
  with gone have "\<not> is_running (tasks (cancel_current_playback s) ! i)" by simp
  then have "pwm_duty (sched_pwm (cancel_current_playback s)) = 0"
    using i run by (simp add: cancel_leaves_running)
  then show ?thesis by (simp add: spawn_current_def)
qed

lemma run_task_leaves_running:
  assumes i: "i < length (tasks s)" and run: "is_running (tasks s ! i)"
    and gone: "\<not> is_running (tasks (run_task j s) ! i)"
  shows "pwm_duty (sched_pwm (run_task j s)) = 0"
proof (cases "j < length (tasks s) \<and> \<not> task_done (tasks s ! j)")
  case False
  then have "run_task j s = s" by (rule run_task_skip)
  with run gone show ?thesis by simp
next
  case True
  show ?thesis
  proof (cases "j = i")
    case False
    with True i have "tasks (run_task j s) ! i = tasks s ! i"
      by (simp add: run_task_turn)
    with run gone show ?thesis by simp
  next
    case same: True
    from run have nc: "\<not> cancel_req (tasks s ! i)" and nf: "\<not> coro_finished (coro (tasks s ! i))"
      by (simp_all add: is_running_def task_done_def)
    from gone same True nc i
    have "coro_finished (fst (coro_step Resume (coro (tasks s ! i)) (sched_pwm s)))"
      by (simp add: run_task_turn is_running_def task_done_def)
    then have "pwm_duty (snd (coro_step Resume (coro (tasks s ! i)) (sched_pwm s))) = 0"
      using nf by (simp add: coro_step_resume_finish)
    with same True nc show ?thesis by (simp add: run_task_turn)
  qed
qed

lemma step_leaves_running:
  assumes "i < length (tasks s)" "is_running (tasks s ! i)" "\<not> is_running (tasks (step e s) ! i)"
  shows "pwm_duty (sched_pwm (step e s)) = 0"
proof (cases e)
  case (PlayTone freq ms duty)
  with assms show ?thesis
    by (simp add: play_tone_for_ms_def spawn_after_cancel_leaves_running)
next
  case (PlayMelody ns gap_ms duty)
  with assms show ?thesis
    by (simp add: play_melody_def spawn_after_cancel_leaves_running)
next
  case CancelPlayback
  with assms show ?thesis by (simp add: cancel_leaves_running)
next
  case (RunTask j)
  with assms show ?thesis by (simp add: run_task_leaves_running)
qed

lemma coro_step_throw_started:
  "coro_started c \<Longrightarrow> \<not> coro_finished c \<Longrightarrow> coro_step Throw c h = (Finished Cancelled, stop_tone h)"
  by (cases c) simp_all

text \<open>
  Claim C3. Cleanup: whenever a step of the system takes a task out of the Running state
  (its coroutine ends normally or with an exception, or its cancellation is requested),
  the duty is zero after that step. At the level of the coroutines: a turn that ends a
  coroutine leaves the duty at zero, and \<open>CancelledError\<close> thrown into a coroutine
  suspended inside its \<open>try\<close> runs \<open>stop_tone\<close>.
\<close>

theorem cleanup_guarantee:
  "(i < length (tasks s) \<and> is_running (tasks s ! i) \<and> \<not> is_running (tasks (step e s) ! i)
      \<longrightarrow> pwm_duty (sched_pwm (step e s)) = 0)
   \<and> (\<not> coro_finished c \<and> coro_finished (fst (coro_step Resume c h))
      \<longrightarrow> pwm_duty (snd (coro_step Resume c h)) = 0)
   \<and> (coro_started c \<and> \<not> coro_finished c
      \<longrightarrow> coro_step Throw c h = (Finished Cancelled, stop_tone h))"
  using step_leaves_running [of i s e] coro_step_resume_finish [of c h]
    coro_step_throw_started [of c h]
  by blast

lemma py_trunc_half: "py_trunc (65535 / 2) = 32767"
  by (simp add: py_trunc_def floor_eq_iff)

lemma ex_tone_spawned:
  "fst (play_tone_for_ms 440 200 (1/2) (init_sched 0)) =
     \<lparr>sched_pwm = \<lparr>pwm_freq = 0, pwm_duty = 0\<rparr>,
      tasks = [new_task (NoteNew 440 200 (1/2))], current_task = Some 0\<rparr>"
  by (simp add: play_tone_for_ms_def cancel_current_playback_def spawn_current_def init_sched_def)

lemma ex_tone_turn:
  "run_task 0 \<lparr>sched_pwm = \<lparr>pwm_freq = 0, pwm_duty = 0\<rparr>,
      tasks = [new_task (NoteNew 440 200 (1/2))], current_task = Some 0\<rparr>
   = \<lparr>sched_pwm = \<lparr>pwm_freq = 440, pwm_duty = 32767\<rparr>,
      tasks = [new_task NoteSleep], current_task = Some 0\<rparr>"
  by (simp add: run_task_def new_task_def task_done_def start_tone_def py_trunc_half)

lemma ex_tone_sounding:
  "run [PlayTone 440 200 (1/2), RunTask 0] (init_sched 0) =
     \<lparr>sched_pwm = \<lparr>pwm_freq = 440, pwm_duty = 32767\<rparr>,
      tasks = [new_task NoteSleep], current_task = Some 0\<rparr>"
  by (simp add: run_def ex_tone_spawned ex_tone_turn)

lemma ex_tone_cancelled:
  "cancel_current_playback \<lparr>sched_pwm = \<lparr>pwm_freq = 440, pwm_duty = 32767\<rparr>,
      tasks = [new_task NoteSleep], current_task = Some 0\<rparr>
   = \<lparr>sched_pwm = \<lparr>pwm_freq = 440, pwm_duty = 0\<rparr>,
      tasks = [\<lparr>coro = NoteSleep, cancel_req = True\<rparr>], current_task = None\<rparr>"
  by (simp add: cancel_current_playback_def new_task_def task_done_def task_cancel_def
      stop_tone_def)

theorem cancel_silences_witness:
  "pwm_duty (sched_pwm (run [PlayTone 440 200 (1/2), RunTask 0] (init_sched 0))) = 32767
   \<and> pwm_duty (sched_pwm (cancel_current_playback
         (run [PlayTone 440 200 (1/2), RunTask 0] (init_sched 0)))) = 0
   \<and> filter is_running (tasks (run [] (init_sched 0))) = []
   \<and> cancel_current_playback (run [] (init_sched 0))
       = (run [] (init_sched 0))\<lparr>current_task := None\<rparr>
   \<and> current_task (init_sched 0) = None
   \<and> cancel_current_playback (init_sched 0) = init_sched 0"
proof -
  have sounding: "pwm_duty (sched_pwm (run [PlayTone 440 200 (1/2), RunTask 0] (init_sched 0)))
      = 32767"
    by (simp add: ex_tone_sounding)
  have silent: "pwm_duty (sched_pwm (cancel_current_playback
         (run [PlayTone 440 200 (1/2), RunTask 0] (init_sched 0)))) = 0"
    using cancel_silences [of "[PlayTone 440 200 (1/2), RunTask 0]" 0 "init_sched 0"]
    unfolding Let_def by blast
  have quiet: "filter is_running (tasks (run [] (init_sched 0))) = []"
    and empty: "current_task (init_sched 0) = None"
    by (simp_all add: run_def init_sched_def)
  have noop: "cancel_current_playback (run [] (init_sched 0))
       = (run [] (init_sched 0))\<lparr>current_task := None\<rparr>"
    "cancel_current_playback (init_sched 0) = init_sched 0"
    using cancel_silences [of "[]" 0 "init_sched 0"] quiet empty
    unfolding Let_def by blast+
  show ?thesis
    using sounding silent quiet empty noop by blast
qed

theorem cleanup_guarantee_witness:
  "(0::nat) < length (tasks (run [PlayTone 440 200 (1/2), RunTask 0] (init_sched 0)))
   \<and> is_running (tasks (run [PlayTone 440 200 (1/2), RunTask 0] (init_sched 0)) ! 0)
   \<and> \<not> is_running (tasks (step CancelPlayback
           (run [PlayTone 440 200 (1/2), RunTask 0] (init_sched 0))) ! 0)
   \<and> pwm_duty (sched_pwm (run [PlayTone 440 200 (1/2), RunTask 0] (init_sched 0))) = 32767
   \<and> pwm_duty (sched_pwm (step CancelPlayback
           (run [PlayTone 440 200 (1/2), RunTask 0] (init_sched 0)))) = 0
   \<and> \<not> coro_finished (MelodyNew [JList [JInt 440, JStr ''x'']] 50 (1/2))
   \<and> coro_finished (fst (coro_step Resume (MelodyNew [JList [JInt 440, JStr ''x'']] 50 (1/2))
         \<lparr>pwm_freq = 0, pwm_duty = 0\<rparr>))
   \<and> pwm_duty (snd (coro_step Resume (MelodyNew [JList [JInt 440, JStr ''x'']] 50 (1/2))
         \<lparr>pwm_freq = 0, pwm_duty = 0\<rparr>)) = 0
   \<and> coro_started NoteSleep \<and> \<not> coro_finished NoteSleep
   \<and> coro_step Throw NoteSleep \<lparr>pwm_freq = 440, pwm_duty = 32767\<rparr>
       = (Finished Cancelled, stop_tone \<lparr>pwm_freq = 440, pwm_duty = 32767\<rparr>)"
proof -
  define S where "S = run [PlayTone 440 200 (1/2), RunTask 0] (init_sched 0)"
  define C where "C = MelodyNew [JList [JInt 440, JStr ''x'']] 50 (1/2)"
  define H where "H = \<lparr>pwm_freq = 0, pwm_duty = 0\<rparr>"
  have S: "S = \<lparr>sched_pwm = \<lparr>pwm_freq = 440, pwm_duty = 32767\<rparr>,
      tasks = [new_task NoteSleep], current_task = Some 0\<rparr>"
    unfolding S_def by (rule ex_tone_sounding)
  have pre: "0 < length (tasks S)" "is_running (tasks S ! 0)"
    "pwm_duty (sched_pwm S) = 32767"
    by (simp_all add: S is_running_def new_task_def task_done_def)
  have gone: "\<not> is_running (tasks (step CancelPlayback S) ! 0)"
    by (simp add: S ex_tone_cancelled is_running_def)
  have fin: "\<not> coro_finished C" "coro_finished (fst (coro_step Resume C H))"
    by (simp_all add: C_def H_def start_tone_def)
  have thr: "coro_started NoteSleep" "\<not> coro_finished NoteSleep"
    by simp_all
  note g = cleanup_guarantee [of 0 S CancelPlayback C H]
  note g2 = cleanup_guarantee [of 0 S CancelPlayback NoteSleep
      "\<lparr>pwm_freq = 440, pwm_duty = 32767\<rparr>"]
  have "pwm_duty (sched_pwm (step CancelPlayback S)) = 0"
    using g pre gone by blast
  moreover have "pwm_duty (snd (coro_step Resume C H)) = 0"
    using g fin by blast
  moreover have "coro_step Throw NoteSleep \<lparr>pwm_freq = 440, pwm_duty = 32767\<rparr>
       = (Finished Cancelled, stop_tone \<lparr>pwm_freq = 440, pwm_duty = 32767\<rparr>)"
    using g2 thr by blast
  ultimately show ?thesis
    using pre gone fin thr unfolding S_def C_def H_def by blast
qed

lemma ex_melody_sounding:
  "run [PlayMelody [JList [JInt 440, JInt 100], JList [JInt 550, JInt 100]] 20 (1/2), RunTask 0]
     (init_sched 0) =
     \<lparr>sched_pwm = \<lparr>pwm_freq = 440, pwm_duty = 32767\<rparr>,
      tasks = [new_task (MelodyNoteSleep [JList [JInt 550, JInt 100]] 20 (1/2))],
      current_task = Some 0\<rparr>"
  by (simp add: run_def play_melody_def cancel_current_playback_def spawn_current_def
      init_sched_def run_task_def new_task_def task_done_def start_tone_def py_trunc_half)

theorem single_flight_witness:
  "tasks (run [PlayMelody [JList [JInt 440, JInt 100], JList [JInt 550, JInt 100]] 20 (1/2),
               RunTask 0] (init_sched 0))
     = [new_task (MelodyNoteSleep [JList [JInt 550, JInt 100]] 20 (1/2))]
   \<and> pwm_duty (sched_pwm (run [PlayMelody [JList [JInt 440, JInt 100],
               JList [JInt 550, JInt 100]] 20 (1/2), RunTask 0] (init_sched 0))) = 32767
   \<and> length (filter is_running (tasks (run [PlayMelody [JList [JInt 440, JInt 100],
               JList [JInt 550, JInt 100]] 20 (1/2), RunTask 0] (init_sched 0)))) \<le> 1
   \<and> filter is_running (tasks (fst (play_tone_for_ms 880 50 (1/2)
         (run [PlayMelody [JList [JInt 440, JInt 100], JList [JInt 550, JInt 100]] 20 (1/2),
               RunTask 0] (init_sched 0)))))
       = [new_task (NoteNew 880 50 (1/2))]
   \<and> current_task (fst (play_tone_for_ms 880 50 (1/2)
         (run [PlayMelody [JList [JInt 440, JInt 100], JList [JInt 550, JInt 100]] 20 (1/2),
               RunTask 0] (init_sched 0)))) = Some 1
   \<and> pwm_duty (sched_pwm (fst (play_tone_for_ms 880 50 (1/2)
         (run [PlayMelody [JList [JInt 440, JInt 100], JList [JInt 550, JInt 100]] 20 (1/2),
               RunTask 0] (init_sched 0))))) = 0"
proof -
  define es where "es = [PlayMelody [JList [JInt 440, JInt 100], JList [JInt 550, JInt 100]]
      20 (1/2), RunTask 0]"
  have s: "run es (init_sched 0) =
     \<lparr>sched_pwm = \<lparr>pwm_freq = 440, pwm_duty = 32767\<rparr>,
      tasks = [new_task (MelodyNoteSleep [JList [JInt 550, JInt 100]] 20 (1/2))],
      current_task = Some 0\<rparr>"
    unfolding es_def by (rule ex_melody_sounding)
  have before: "tasks (run es (init_sched 0))
       = [new_task (MelodyNoteSleep [JList [JInt 550, JInt 100]] 20 (1/2))]"
    "pwm_duty (sched_pwm (run es (init_sched 0))) = 32767"
    "length (tasks (run es (init_sched 0))) = 1"
    by (simp_all add: s)
  note sf = single_flight [of es 0 880 50 "1/2" "[]" 0, unfolded Let_def]
  have "length (filter is_running (tasks (run es (init_sched 0)))) \<le> 1"
    "filter is_running (tasks (fst (play_tone_for_ms 880 50 (1/2) (run es (init_sched 0)))))
       = [new_task (NoteNew 880 50 (1/2))]"
    "current_task (fst (play_tone_for_ms 880 50 (1/2) (run es (init_sched 0))))
       = Some (length (tasks (run es (init_sched 0))))"
    "pwm_duty (sched_pwm (fst (play_tone_for_ms 880 50 (1/2) (run es (init_sched 0))))) = 0"
    using sf by blast+
  then show ?thesis
    using before unfolding es_def by simp
qed

section \<open>Properties of the request router\<close>

lemma bad_request_400:
  "send_json 400 (error_body msg) =
     \<lparr>resp_status = 400, resp_reason = ''Bad Request'', resp_body = JObj [(''error'', JStr msg)]\<rparr>"
  by (simp add: send_json_def status_text_def error_body_def)

lemma accepted_202:
  "send_json 202 obj = \<lparr>resp_status = 202, resp_reason = ''Accepted'', resp_body = obj\<rparr>"
  by (simp add: send_json_def status_text_def)

lemma internal_500:
  "internal_error rt e =
     \<lparr>resp_status = 500, resp_reason = ''Internal Server Error'',
      resp_body = JObj [(''error'', JStr ''internal''), (''detail'', JStr (exc_str rt e))]\<rparr>"
  by (simp add: internal_error_def send_json_def status_text_def)

lemma handle_client_headers_fail:
  assumes "req_line rq \<noteq> []" "decode_utf8 rt (req_line rq) = Some text"
    and "py_split (py_strip text) = method # path # rest"
    and "read_headers rt Map.empty (header_lines rq) = Inl e"
  shows "handle_client rt dev rq s = (s, Some (internal_error rt e))"
  using assms by (simp add: handle_client_def)

lemma handle_client_get:
  assumes "req_line rq \<noteq> []" "decode_utf8 rt (req_line rq) = Some text"
    and "py_split (py_strip text) = ''GET'' # path # rest"
    and "read_headers rt Map.empty (header_lines rq) = Inr headers"
  shows "handle_client rt dev rq s =
     (case handle_get dev path of
        Inl e \<Rightarrow> (s, Some (internal_error rt e))
      | Inr resp \<Rightarrow> (s, Some resp))"
  using assms by (simp add: handle_client_def Let_def split: sum.split)

lemma handle_client_post:
  assumes "req_line rq \<noteq> []" "decode_utf8 rt (req_line rq) = Some text"
    and "py_split (py_strip text) = ''POST'' # path # rest"
    and "read_headers rt Map.empty (header_lines rq) = Inr headers"
  shows "handle_client rt dev rq s =
     (let r = handle_post rt path headers (body_chunks rq) s
      in case snd r of
           Inl e \<Rightarrow> (fst r, Some (internal_error rt e))
         | Inr resp \<Rightarrow> (fst r, Some resp))"
  using assms by (simp add: handle_client_def Let_def)

lemma handle_get_sensor_raises: "handle_get dev ''/sensor'' = Inl TypeError"
  by (simp add: handle_get_def handle_get_sensor_def sensor_payload_def)

text \<open>
  Claim C2 says that \<open>GET /sensor\<close> is answered with status 200 and the object
  \<open>{raw, norm, lux}\<close>. The code does not get there: \<open>sensor_payload\<close> raises
  \<open>TypeError\<close> for every sample, because it passes one argument to \<open>normalize_raw\<close>,
  which requires three. A request whose request line decodes and reads \<open>GET /sensor\<close>
  is always answered with status 500: with the text of that \<open>TypeError\<close> when the
  header lines decode, with the text of the \<open>UnicodeError\<close> when one does not.
\<close>

theorem sensor_request_raises:
  "sensor_payload sample = Inl TypeError
   \<and> handle_get dev ''/sensor'' = Inl TypeError
   \<and> (req_line rq \<noteq> [] \<and> decode_utf8 rt (req_line rq) = Some text
       \<and> py_split (py_strip text) = ''GET'' # ''/sensor'' # rest
       \<and> read_headers rt Map.empty (header_lines rq) = Inr headers \<longrightarrow>
      handle_client rt dev rq s =
        (s, Some \<lparr>resp_status = 500, resp_reason = ''Internal Server Error'',
                  resp_body = JObj [(''error'', JStr ''internal''),
                                    (''detail'', JStr (exc_str rt TypeError))]\<rparr>))
   \<and> (req_line rq \<noteq> [] \<and> decode_utf8 rt (req_line rq) = Some text
       \<and> py_split (py_strip text) = ''GET'' # ''/sensor'' # rest \<longrightarrow>
      (\<exists>e. handle_client rt dev rq s =
        (s, Some \<lparr>resp_status = 500, resp_reason = ''Internal Server Error'',
                  resp_body = JObj [(''error'', JStr ''internal''),
                                    (''detail'', JStr (exc_str rt e))]\<rparr>)))"
proof -
  have payload: "sensor_payload sample = Inl TypeError"
    by (simp add: sensor_payload_def)
  have ok: "handle_client rt dev rq s = (s, Some (internal_error rt TypeError))"
    if "req_line rq \<noteq> []" "decode_utf8 rt (req_line rq) = Some text"
      "py_split (py_strip text) = ''GET'' # ''/sensor'' # rest"
      "read_headers rt Map.empty (header_lines rq) = Inr h" for h
    using handle_client_get [OF that, of dev s] by (simp add: handle_get_sensor_raises)
  have any: "\<exists>e. handle_client rt dev rq s = (s, Some (internal_error rt e))"
    if line: "req_line rq \<noteq> []" "decode_utf8 rt (req_line rq) = Some text"
      "py_split (py_strip text) = ''GET'' # ''/sensor'' # rest"
  proof (cases "read_headers rt Map.empty (header_lines rq)")
    case (Inl e)
    from handle_client_headers_fail [OF line Inl] show ?thesis by blast
  next
    case (Inr h)
    from ok [OF line Inr] show ?thesis by blast
  qed
  show ?thesis
    using payload handle_get_sensor_raises [of dev] ok [of headers] any
    unfolding internal_500 by blast
qed

lemma lower_content_length: "py_lower ''Content-Length'' = ''content-length''"
  by code_simp

lemma lower_host: "py_lower ''Host'' = ''host''"
  by code_simp

lemma sensor_request_parts:
  "req_line sensor_request \<noteq> []"
  "decode_utf8 test_runtime (req_line sensor_request) = Some (req_line sensor_request)"
  "py_split (py_strip (req_line sensor_request)) = ''GET'' # ''/sensor'' # [''HTTP/1.1'']"
  "read_headers test_runtime Map.empty (header_lines sensor_request)
     = Inr (Map.empty(''host'' \<mapsto> ''pico''))"
  by (simp_all add: sensor_request_def test_runtime_def ascii_decode_def py_split_def
      py_strip_def is_space_def split_colon_def lower_host)

theorem sensor_request_raises_witness:
  "req_line sensor_request \<noteq> []
   \<and> decode_utf8 test_runtime (req_line sensor_request) = Some (req_line sensor_request)
   \<and> py_split (py_strip (req_line sensor_request)) = [''GET'', ''/sensor'', ''HTTP/1.1'']
   \<and> read_headers test_runtime Map.empty (header_lines sensor_request)
       = Inr (Map.empty(''host'' \<mapsto> ''pico''))
   \<and> handle_client test_runtime test_device sensor_request (init_sched 0) =
        (init_sched 0,
         Some \<lparr>resp_status = 500, resp_reason = ''Internal Server Error'',
               resp_body = JObj [(''error'', JStr ''internal''),
                                 (''detail'', JStr (exc_str test_runtime TypeError))]\<rparr>)"
proof -
  have "handle_client test_runtime test_device sensor_request (init_sched 0) =
        (init_sched 0,
         Some \<lparr>resp_status = 500, resp_reason = ''Internal Server Error'',
               resp_body = JObj [(''error'', JStr ''internal''),
                                 (''detail'', JStr (exc_str test_runtime TypeError))]\<rparr>)"
    using sensor_request_raises [of 0 test_device sensor_request test_runtime
        "req_line sensor_request" "[''HTTP/1.1'']" "Map.empty(''host'' \<mapsto> ''pico'')"
        "init_sched 0"] sensor_request_parts
    by blast
  then show ?thesis
    using sensor_request_parts by blast
qed

lemma tone_params_example: "tone_params rt tone_body = Inr (440, 200, 1/2)"
  by (simp add: tone_params_def tone_body_def)

lemma handle_post_tone_accepts:
  "tone_params rt body = Inr (freq, ms, duty) \<Longrightarrow>
   handle_post_tone rt body s = (fst (play_tone_for_ms freq ms duty s), Inl TypeError)"
  by (simp add: handle_post_tone_def play_tone_for_ms_def)

lemma handle_post_tone_rejects:
  "tone_params rt body = Inl e \<Longrightarrow>
   handle_post_tone rt body s = (s, Inr (send_json 400 (error_body ''Invalid tone parameters'')))"
  by (simp add: handle_post_tone_def)

lemma handle_post_decoded:
  assumes "content_length rt headers = Inr clen"
    and "(if read_body clen [] chunks = [] then Some (JObj [])
          else json_loads rt (read_body clen [] chunks)) = Some body"
  shows "handle_post rt path headers chunks s =
     (if path = ''/tone'' then handle_post_tone rt body s
      else if path = ''/melody'' then handle_post_melody rt body s
      else if path = ''/cancel'' then handle_post_cancel s
      else (s, Inr (send_json 404 (error_body ''Not Found''))))"
  using assms by (simp add: handle_post_def Let_def)

lemma read_body_zero: "read_body 0 [] chunks = []"
  by (cases chunks) simp_all

lemma tone_params_empty: "tone_params rt (JObj []) = Inl TypeError"
  by (simp add: tone_params_def)

text \<open>
  Claim C9. A POST request whose request line and header lines decode, whose content
  length converts, and of which no body byte is read (the content length is 0, or
  nothing can be read) is handled with the empty object as its body, whatever
  \<open>ujson.loads\<close> would make of the empty string: \<open>POST /cancel\<close> is answered with 202
  after the cancellation, and \<open>POST /tone\<close> with 400 and
  \<open>{"error": "Invalid tone parameters"}\<close>.
\<close>

theorem empty_body_is_empty_object:
  "req_line rq \<noteq> [] \<and> decode_utf8 rt (req_line rq) = Some text
   \<and> py_split (py_strip text) = ''POST'' # path # rest
   \<and> read_headers rt Map.empty (header_lines rq) = Inr headers
   \<and> content_length rt headers = Inr clen
   \<and> (clen = 0 \<or> read_body clen [] (body_chunks rq) = [])
   \<longrightarrow> (path = ''/cancel'' \<longrightarrow>
          handle_client rt dev rq s =
            (cancel_current_playback s,
             Some \<lparr>resp_status = 202, resp_reason = ''Accepted'',
                   resp_body = JObj [(''status'', JStr ''canceled'')]\<rparr>))
     \<and> (path = ''/tone'' \<longrightarrow>
          handle_client rt dev rq s =
            (s, Some \<lparr>resp_status = 400, resp_reason = ''Bad Request'',
                      resp_body = JObj [(''error'', JStr ''Invalid tone parameters'')]\<rparr>))"
proof (intro impI, elim conjE)
  assume line: "req_line rq \<noteq> []"
    and dec: "decode_utf8 rt (req_line rq) = Some text"
    and parts: "py_split (py_strip text) = ''POST'' # path # rest"
    and hdrs: "read_headers rt Map.empty (header_lines rq) = Inr headers"
    and clen: "content_length rt headers = Inr clen"
    and empty: "clen = 0 \<or> read_body clen [] (body_chunks rq) = []"
  from empty have nobytes: "read_body clen [] (body_chunks rq) = []"
    using read_body_zero by auto
  have post: "handle_post rt path headers (body_chunks rq) s =
     (if path = ''/tone'' then handle_post_tone rt (JObj []) s
      else if path = ''/melody'' then handle_post_melody rt (JObj []) s
      else if path = ''/cancel'' then handle_post_cancel s
      else (s, Inr (send_json 404 (error_body ''Not Found''))))"
    by (rule handle_post_decoded [OF clen]) (simp add: nobytes)
  have hc: "handle_client rt dev rq s =
     (let r = (if path = ''/tone'' then handle_post_tone rt (JObj []) s
               else if path = ''/melody'' then handle_post_melody rt (JObj []) s
               else if path = ''/cancel'' then handle_post_cancel s
               else (s, Inr (send_json 404 (error_body ''Not Found''))))
      in case snd r of
           Inl e \<Rightarrow> (fst r, Some (internal_error rt e))
         | Inr resp \<Rightarrow> (fst r, Some resp))"
    unfolding handle_client_post [OF line dec parts hdrs] post by (rule refl)
  have cancel: "handle_client rt dev rq s =
            (cancel_current_playback s,
             Some \<lparr>resp_status = 202, resp_reason = ''Accepted'',
                   resp_body = JObj [(''status'', JStr ''canceled'')]\<rparr>)"
    if "path = ''/cancel''"
    using that by (simp add: hc handle_post_cancel_def cancel_playback_def accepted_202)
  have tone: "handle_client rt dev rq s =
            (s, Some \<lparr>resp_status = 400, resp_reason = ''Bad Request'',
                      resp_body = JObj [(''error'', JStr ''Invalid tone parameters'')]\<rparr>)"
    if "path = ''/tone''"
    using that by (simp add: hc handle_post_tone_rejects [OF tone_params_empty] bad_request_400)
  from cancel tone show "(path = ''/cancel'' \<longrightarrow>
          handle_client rt dev rq s =
            (cancel_current_playback s,
             Some \<lparr>resp_status = 202, resp_reason = ''Accepted'',
                   resp_body = JObj [(''status'', JStr ''canceled'')]\<rparr>))
     \<and> (path = ''/tone'' \<longrightarrow>
          handle_client rt dev rq s =
            (s, Some \<lparr>resp_status = 400, resp_reason = ''Bad Request'',
                      resp_body = JObj [(''error'', JStr ''Invalid tone parameters'')]\<rparr>))"
    by blast
qed

lemma cancel_request_parts:
  "req_line cancel_request \<noteq> []"
  "decode_utf8 test_runtime (req_line cancel_request) = Some (req_line cancel_request)"
  "py_split (py_strip (req_line cancel_request)) = ''POST'' # ''/cancel'' # [''HTTP/1.1'']"
  "read_headers test_runtime Map.empty (header_lines cancel_request) = Inr Map.empty"
  "content_length test_runtime Map.empty = Inr 0"
  by (simp_all add: cancel_request_def py_split_def py_strip_def is_space_def content_length_def
      test_runtime_def decimal_int_def ascii_decode_def)

lemma empty_tone_request_parts:
  "req_line empty_tone_request \<noteq> []"
  "decode_utf8 test_runtime (req_line empty_tone_request) = Some (req_line empty_tone_request)"
  "py_split (py_strip (req_line empty_tone_request)) = ''POST'' # ''/tone'' # [''HTTP/1.1'']"
  "read_headers test_runtime Map.empty (header_lines empty_tone_request)
     = Inr (Map.empty(''content-length'' \<mapsto> ''5''))"
  "content_length test_runtime (Map.empty(''content-length'' \<mapsto> ''5'')) = Inr 5"
  "read_body 5 [] (body_chunks empty_tone_request) = []"
  by (simp_all add: empty_tone_request_def py_split_def py_strip_def is_space_def
      content_length_def test_runtime_def decimal_int_def ascii_decode_def split_colon_def
      lower_content_length)

theorem empty_body_is_empty_object_witness:
  "req_line cancel_request \<noteq> []
   \<and> decode_utf8 test_runtime (req_line cancel_request) = Some (req_line cancel_request)
   \<and> py_split (py_strip (req_line cancel_request)) = [''POST'', ''/cancel'', ''HTTP/1.1'']
   \<and> read_headers test_runtime Map.empty (header_lines cancel_request) = Inr Map.empty
   \<and> content_length test_runtime Map.empty = Inr 0
   \<and> json_loads test_runtime [] = None
   \<and> handle_client test_runtime test_device cancel_request (init_sched 0) =
         (cancel_current_playback (init_sched 0),
          Some \<lparr>resp_status = 202, resp_reason = ''Accepted'',
                resp_body = JObj [(''status'', JStr ''canceled'')]\<rparr>)
   \<and> req_line empty_tone_request \<noteq> []
   \<and> decode_utf8 test_runtime (req_line empty_tone_request) = Some (req_line empty_tone_request)
   \<and> py_split (py_strip (req_line empty_tone_request)) = [''POST'', ''/tone'', ''HTTP/1.1'']
   \<and> read_headers test_runtime Map.empty (header_lines empty_tone_request)
       = Inr (Map.empty(''content-length'' \<mapsto> ''5''))
   \<and> content_length test_runtime (Map.empty(''content-length'' \<mapsto> ''5'')) = Inr 5
   \<and> read_body 5 [] (body_chunks empty_tone_request) = []
   \<and> handle_client test_runtime test_device empty_tone_request (init_sched 0) =
         (init_sched 0,
          Some \<lparr>resp_status = 400, resp_reason = ''Bad Request'',
                resp_body = JObj [(''error'', JStr ''Invalid tone parameters'')]\<rparr>)"
proof -
  have loads: "json_loads test_runtime [] = None"
    by (simp add: test_runtime_def tone_bytes_def bad_freq_bytes_def)
  have a: "handle_client test_runtime test_device cancel_request (init_sched 0) =
         (cancel_current_playback (init_sched 0),
          Some \<lparr>resp_status = 202, resp_reason = ''Accepted'',
                resp_body = JObj [(''status'', JStr ''canceled'')]\<rparr>)"
    using empty_body_is_empty_object [of cancel_request test_runtime "req_line cancel_request"
        "''/cancel''" "[''HTTP/1.1'']" Map.empty 0 test_device "init_sched 0"]
      cancel_request_parts
    by blast
  have b: "handle_client test_runtime test_device empty_tone_request (init_sched 0) =
         (init_sched 0,
          Some \<lparr>resp_status = 400, resp_reason = ''Bad Request'',
                resp_body = JObj [(''error'', JStr ''Invalid tone parameters'')]\<rparr>)"
    using empty_body_is_empty_object [of empty_tone_request test_runtime
        "req_line empty_tone_request" "''/tone''" "[''HTTP/1.1'']"
        "Map.empty(''content-length'' \<mapsto> ''5'')" 5 test_device "init_sched 0"]
      empty_tone_request_parts
    by blast
  show ?thesis
    using loads a b cancel_request_parts empty_tone_request_parts by blast
qed

lemma tone_params_bad_freq:
  "dict_get body ''freq'' JNull = Inr v \<Longrightarrow> py_int rt v = Inl e \<Longrightarrow> tone_params rt body = Inl e"
  by (simp add: tone_params_def)

text \<open>
  Claim C7. When the \<open>freq\<close> field of the body of a \<open>POST /tone\<close> request cannot be
  converted by \<open>int\<close>, the handler answers 400 with
  \<open>{"error": "Invalid tone parameters"}\<close> and leaves the scheduler and the PWM as they
  were; the same holds for the whole request through \<open>handle_client\<close> when its lines
  decode and its body is loaded.
\<close>

theorem invalid_freq_rejected:
  "(dict_get body ''freq'' JNull = Inr v \<and> py_int rt v = Inl e \<longrightarrow>
      handle_post_tone rt body s =
        (s, Inr \<lparr>resp_status = 400, resp_reason = ''Bad Request'',
                 resp_body = JObj [(''error'', JStr ''Invalid tone parameters'')]\<rparr>))
   \<and> (req_line rq \<noteq> [] \<and> decode_utf8 rt (req_line rq) = Some text
       \<and> py_split (py_strip text) = ''POST'' # ''/tone'' # rest
       \<and> read_headers rt Map.empty (header_lines rq) = Inr headers
       \<and> content_length rt headers = Inr clen
       \<and> read_body clen [] (body_chunks rq) \<noteq> []
       \<and> json_loads rt (read_body clen [] (body_chunks rq)) = Some body
       \<and> dict_get body ''freq'' JNull = Inr v \<and> py_int rt v = Inl e \<longrightarrow>
      handle_client rt dev rq s =
        (s, Some \<lparr>resp_status = 400, resp_reason = ''Bad Request'',
                  resp_body = JObj [(''error'', JStr ''Invalid tone parameters'')]\<rparr>))"
proof -
  have handler: "handle_post_tone rt body s =
        (s, Inr \<lparr>resp_status = 400, resp_reason = ''Bad Request'',
                 resp_body = JObj [(''error'', JStr ''Invalid tone parameters'')]\<rparr>)"
    if "dict_get body ''freq'' JNull = Inr v" "py_int rt v = Inl e"
    using handle_post_tone_rejects [OF tone_params_bad_freq [OF that]]
    by (simp add: bad_request_400)
  have client: "handle_client rt dev rq s =
        (s, Some \<lparr>resp_status = 400, resp_reason = ''Bad Request'',
                  resp_body = JObj [(''error'', JStr ''Invalid tone parameters'')]\<rparr>)"
    if line: "req_line rq \<noteq> []"
      and dec: "decode_utf8 rt (req_line rq) = Some text"
      and parts: "py_split (py_strip text) = ''POST'' # ''/tone'' # rest"
      and hdrs: "read_headers rt Map.empty (header_lines rq) = Inr headers"
      and clen: "content_length rt headers = Inr clen"
      and bytes: "read_body clen [] (body_chunks rq) \<noteq> []"
      and loads: "json_loads rt (read_body clen [] (body_chunks rq)) = Some body"
      and bad: "dict_get body ''freq'' JNull = Inr v" "py_int rt v = Inl e"
  proof -
    have post: "handle_post rt ''/tone'' headers (body_chunks rq) s = handle_post_tone rt body s"
      using handle_post_decoded [OF clen, of "body_chunks rq" body "''/tone''" s] bytes loads
      by simp
    show ?thesis
      unfolding handle_client_post [OF line dec parts hdrs] post handler [OF bad]
      by simp
  qed
  show ?thesis
    using handler client by blast
qed

lemma bad_freq_request_parts:
  "req_line bad_freq_request \<noteq> []"
  "decode_utf8 test_runtime (req_line bad_freq_request) = Some (req_line bad_freq_request)"
  "py_split (py_strip (req_line bad_freq_request)) = ''POST'' # ''/tone'' # [''HTTP/1.1'']"
  "read_headers test_runtime Map.empty (header_lines bad_freq_request)
     = Inr (Map.empty(''content-length'' \<mapsto> ''14''))"
  "content_length test_runtime (Map.empty(''content-length'' \<mapsto> ''14'')) = Inr 14"
  "read_body 14 [] (body_chunks bad_freq_request) = bad_freq_bytes"
  "bad_freq_bytes \<noteq> []"
  "json_loads test_runtime bad_freq_bytes = Some bad_freq_body"
  "dict_get bad_freq_body ''freq'' JNull = Inr (JStr ''abc'')"
  "py_int test_runtime (JStr ''abc'') = Inl ValueError"
  by (simp_all add: bad_freq_request_def py_split_def py_strip_def is_space_def
      content_length_def test_runtime_def decimal_int_def bad_freq_bytes_def tone_bytes_def
      bad_freq_body_def ascii_decode_def split_colon_def lower_content_length)

theorem invalid_freq_rejected_witness:
  "dict_get bad_freq_body ''freq'' JNull = Inr (JStr ''abc'')
   \<and> py_int test_runtime (JStr ''abc'') = Inl ValueError
   \<and> handle_post_tone test_runtime bad_freq_body (init_sched 0) =
        (init_sched 0, Inr \<lparr>resp_status = 400, resp_reason = ''Bad Request'',
                 resp_body = JObj [(''error'', JStr ''Invalid tone parameters'')]\<rparr>)
   \<and> req_line bad_freq_request \<noteq> []
   \<and> decode_utf8 test_runtime (req_line bad_freq_request) = Some (req_line bad_freq_request)
   \<and> py_split (py_strip (req_line bad_freq_request)) = [''POST'', ''/tone'', ''HTTP/1.1'']
   \<and> read_headers test_runtime Map.empty (header_lines bad_freq_request)
       = Inr (Map.empty(''content-length'' \<mapsto> ''14''))
   \<and> content_length test_runtime (Map.empty(''content-length'' \<mapsto> ''14'')) = Inr 14
   \<and> read_body 14 [] (body_chunks bad_freq_request) = bad_freq_bytes
   \<and> json_loads test_runtime bad_freq_bytes = Some bad_freq_body
   \<and> handle_client test_runtime test_device bad_freq_request (init_sched 0) =
        (init_sched 0, Some \<lparr>resp_status = 400, resp_reason = ''Bad Request'',
                  resp_body = JObj [(''error'', JStr ''Invalid tone parameters'')]\<rparr>)"
proof -
  note t = invalid_freq_rejected [of bad_freq_body "JStr ''abc''" test_runtime ValueError
      "init_sched 0" bad_freq_request "req_line bad_freq_request" "[''HTTP/1.1'']"
      "Map.empty(''content-length'' \<mapsto> ''14'')" 14 test_device]
  have a: "handle_post_tone test_runtime bad_freq_body (init_sched 0) =
        (init_sched 0, Inr \<lparr>resp_status = 400, resp_reason = ''Bad Request'',
                 resp_body = JObj [(''error'', JStr ''Invalid tone parameters'')]\<rparr>)"
    using t bad_freq_request_parts by blast
  have b: "handle_client test_runtime test_device bad_freq_request (init_sched 0) =
        (init_sched 0, Some \<lparr>resp_status = 400, resp_reason = ''Bad Request'',
                  resp_body = JObj [(''error'', JStr ''Invalid tone parameters'')]\<rparr>)"
    using t bad_freq_request_parts by simp
  show ?thesis
    using a b bad_freq_request_parts by blast
qed

lemma tone_request_parts:
  "req_line tone_request \<noteq> []"
  "decode_utf8 test_runtime (req_line tone_request) = Some (req_line tone_request)"
  "py_split (py_strip (req_line tone_request)) = ''POST'' # ''/tone'' # [''HTTP/1.1'']"
  "read_headers test_runtime Map.empty (header_lines tone_request)
     = Inr (Map.empty(''content-length'' \<mapsto> ''37''))"
  "content_length test_runtime (Map.empty(''content-length'' \<mapsto> ''37'')) = Inr 37"
  "read_body 37 [] (body_chunks tone_request) = tone_bytes"
  "tone_bytes \<noteq> []"
  "json_loads test_runtime tone_bytes = Some tone_body"
  by (simp_all add: tone_request_def py_split_def py_strip_def is_space_def
      content_length_def test_runtime_def decimal_int_def tone_bytes_def
      ascii_decode_def split_colon_def lower_content_length)

text \<open>
  Claim C6 says that \<open>POST /tone\<close> with the body \<open>{"freq": 440, "ms": 200, "duty": 0.5}\<close>
  is answered with status 202 and the accepted values. The code starts the tone task and
  then raises \<open>TypeError\<close> at line 62, where it awaits the \<open>None\<close> that
  \<open>play_tone_for_ms\<close> returned; \<open>handle_client\<close> answers with status 500.
\<close>

theorem tone_request_raises:
  "handle_post_tone rt tone_body s = (fst (play_tone_for_ms 440 200 (1/2) s), Inl TypeError)
   \<and> handle_client test_runtime dev tone_request s =
       (fst (play_tone_for_ms 440 200 (1/2) s),
        Some \<lparr>resp_status = 500, resp_reason = ''Internal Server Error'',
              resp_body = JObj [(''error'', JStr ''internal''),
                                (''detail'', JStr (exc_str test_runtime TypeError))]\<rparr>)"
proof -
  have handler: "handle_post_tone r tone_body s =
      (fst (play_tone_for_ms 440 200 (1/2) s), Inl TypeError)" for r
    by (rule handle_post_tone_accepts [OF tone_params_example])
  have post: "handle_post test_runtime ''/tone'' (Map.empty(''content-length'' \<mapsto> ''37''))
      (body_chunks tone_request) s = handle_post_tone test_runtime tone_body s"
    using handle_post_decoded [OF tone_request_parts(5), of "body_chunks tone_request"
        tone_body "''/tone''" s] tone_request_parts(6,7,8)
    by simp
  have "handle_client test_runtime dev tone_request s =
       (fst (play_tone_for_ms 440 200 (1/2) s),
        Some \<lparr>resp_status = 500, resp_reason = ''Internal Server Error'',
              resp_body = JObj [(''error'', JStr ''internal''),
                                (''detail'', JStr (exc_str test_runtime TypeError))]\<rparr>)"
    unfolding handle_client_post [OF tone_request_parts(1,2,3,4)] post handler
    by (simp add: internal_500)
  with handler show ?thesis by blast
qed

lemma py_trunc_int: "py_trunc (real_of_int n) = n"
  by (simp add: py_trunc_def)

lemma start_tone_duty: "0 < freq \<Longrightarrow> pwm_duty (start_tone freq duty hw) = py_trunc (65535 * duty)"
  by (simp add: start_tone_def)

text \<open>
  Claim C10. The duty is not checked against [0, 1]: the bodies with \<open>duty\<close> 2.0 and
  \<open>duty\<close> -1.0 pass the validation of \<open>POST /tone\<close>, and \<open>start_tone\<close> writes
  \<open>int(65535 * duty)\<close>, that is 131070 and -65535, to the duty register, both outside
  0 to 65535; run through the handler and one turn of the new task, 131070 is what the
  register holds.
\<close>

theorem duty_not_validated:
  "tone_params rt (JObj [(''freq'', JInt 440), (''ms'', JInt 200), (''duty'', JFloat 2)])
     = Inr (440, 200, 2)
   \<and> pwm_duty (start_tone 440 2 hw) = 131070
   \<and> \<not> pwm_duty (start_tone 440 2 hw) \<le> 65535
   \<and> tone_params rt (JObj [(''freq'', JInt 440), (''ms'', JInt 200), (''duty'', JFloat (- 1))])
     = Inr (440, 200, - 1)
   \<and> pwm_duty (start_tone 440 (- 1) hw) = - 65535
   \<and> pwm_duty (start_tone 440 (- 1) hw) < 0
   \<and> pwm_duty (sched_pwm (run_task 0 (fst (handle_post_tone rt
         (JObj [(''freq'', JInt 440), (''ms'', JInt 200), (''duty'', JFloat 2)])
         (init_sched f0))))) = 131070"
proof -
  have p2: "tone_params rt (JObj [(''freq'', JInt 440), (''ms'', JInt 200), (''duty'', JFloat 2)])
     = Inr (440, 200, 2)"
    and pm: "tone_params rt (JObj [(''freq'', JInt 440), (''ms'', JInt 200), (''duty'', JFloat (- 1))])
     = Inr (440, 200, - 1)"
    by (simp_all add: tone_params_def)
  have d2: "pwm_duty (start_tone 440 2 h) = 131070" for h
    using py_trunc_int [of 131070] by (simp add: start_tone_duty)
  have dm: "pwm_duty (start_tone 440 (- 1) h) = - 65535" for h
    using py_trunc_int [of "- 65535"] by (simp add: start_tone_duty)
  have st: "fst (handle_post_tone rt
         (JObj [(''freq'', JInt 440), (''ms'', JInt 200), (''duty'', JFloat 2)]) (init_sched f0))
      = \<lparr>sched_pwm = \<lparr>pwm_freq = f0, pwm_duty = 0\<rparr>,
         tasks = [new_task (NoteNew 440 200 2)], current_task = Some 0\<rparr>"
    unfolding handle_post_tone_accepts [OF p2]
    by (simp add: play_tone_for_ms_def cancel_current_playback_def spawn_current_def
        init_sched_def)
  have "sched_pwm (run_task 0 \<lparr>sched_pwm = \<lparr>pwm_freq = f0, pwm_duty = 0\<rparr>,
         tasks = [new_task (NoteNew 440 200 2)], current_task = Some 0\<rparr>)
      = start_tone 440 2 \<lparr>pwm_freq = f0, pwm_duty = 0\<rparr>"
    by (simp add: run_task_def new_task_def task_done_def)
  then have e2e: "pwm_duty (sched_pwm (run_task 0 (fst (handle_post_tone rt
         (JObj [(''freq'', JInt 440), (''ms'', JInt 200), (''duty'', JFloat 2)])
         (init_sched f0))))) = 131070"
    unfolding st by (simp add: d2)
  show ?thesis
    using p2 pm d2 [of hw] dm [of hw] e2e by simp
qed

end
